theory Spec2Isabelle
  imports Complex_Main "HOL-Library.List_Lexorder" "HOL-Library.Char_ord"
begin

section \<open>Values, library operations and data frames\<close>

text \<open>
  The job search helper \<^verbatim>\<open>scrape_jobs_tool\<close> of
  \<^verbatim>\<open>interview_agent/linkedin_tool/jobspy_tools.py\<close> reads the cells of a pandas
  data frame without knowing their types. A cell is therefore a dynamically typed value.
  The three null values that \<^verbatim>\<open>pandas.notna\<close> rejects are kept apart, because Python
  treats them differently: \<^verbatim>\<open>None\<close> is falsy, \<^verbatim>\<open>float('nan')\<close> is truthy and
  \<^verbatim>\<open>bool(pandas.NA)\<close> raises. \<open>PFloat\<close> carries a float other than NaN; its
  arithmetic and its rendering belong to Python and pandas and are parameters of the
  model (see \<open>pylib\<close>). An object that the code only renders with \<^verbatim>\<open>str\<close>, such as the
  date of \<^verbatim>\<open>date_posted\<close>, is represented by \<open>PStr\<close> of its rendering. An element of
  a \<open>string\<close> stands for one character of a Python \<^verbatim>\<open>str\<close>.
\<close>

datatype 'f pyval = PNone | PNaN | PNA | PStr string | PBool bool | PFloat 'f

datatype pyerror = AttributeError | ValueError | TypeError

text \<open>
  The operations of the Python standard library and of pandas that the code calls and
  whose definition is not part of the repository:
  \<^verbatim>\<open>repr(s)\<close> and \<^verbatim>\<open>s.title()\<close> on a \<^verbatim>\<open>str\<close>; \<^verbatim>\<open>str(x)\<close>,
  \<^verbatim>\<open>format(x, ',.0f')\<close>, \<^verbatim>\<open>float(b)\<close>, \<^verbatim>\<open>bool(x)\<close> on a float;
  \<^verbatim>\<open>Series.mean()\<close> on a non-empty column of floats.
\<close>

record 'f pylib =
  str_repr :: "string \<Rightarrow> string"
  str_title :: "string \<Rightarrow> string"
  float_str :: "'f \<Rightarrow> string"
  float_format_0f :: "'f \<Rightarrow> string"
  float_of_bool :: "bool \<Rightarrow> 'f"
  float_bool :: "'f \<Rightarrow> bool"
  float_mean :: "'f list \<Rightarrow> 'f"

text \<open>\<^verbatim>\<open>pandas.notna\<close> on a scalar.\<close>

fun notna :: "'f pyval \<Rightarrow> bool" where
  "notna PNone = False"
| "notna PNaN = False"
| "notna PNA = False"
| "notna (PStr s) = True"
| "notna (PBool b) = True"
| "notna (PFloat x) = True"

text \<open>\<^verbatim>\<open>str(v)\<close>, which is also what an f-string field without a format gives.\<close>

fun py_str :: "'f pylib \<Rightarrow> 'f pyval \<Rightarrow> string" where
  "py_str lib PNone = ''None''"
| "py_str lib PNaN = ''nan''"
| "py_str lib PNA = ''<NA>''"
| "py_str lib (PStr s) = s"
| "py_str lib (PBool b) = (if b then ''True'' else ''False'')"
| "py_str lib (PFloat x) = float_str lib x"

text \<open>\<^verbatim>\<open>bool(v)\<close>, the test of an \<^verbatim>\<open>if\<close>: \<^verbatim>\<open>pandas.NA\<close> has no truth value.\<close>

fun py_bool :: "'f pylib \<Rightarrow> 'f pyval \<Rightarrow> pyerror + bool" where
  "py_bool lib PNone = Inr False"
| "py_bool lib PNaN = Inr True"
| "py_bool lib PNA = Inl TypeError"
| "py_bool lib (PStr s) = Inr (s \<noteq> [])"
| "py_bool lib (PBool b) = Inr b"
| "py_bool lib (PFloat x) = Inr (float_bool lib x)"

text \<open>
  The f-string field \<^verbatim>\<open>{v:,.0f}\<close>. A \<^verbatim>\<open>bool\<close> is an \<^verbatim>\<open>int\<close> and is converted to
  a float; a \<^verbatim>\<open>str\<close> does not know the format code \<^verbatim>\<open>f\<close>; \<^verbatim>\<open>None\<close> accepts no
  format at all; \<^verbatim>\<open>pandas.NA\<close> falls back to its \<^verbatim>\<open>repr\<close>.
\<close>

fun format_0f :: "'f pylib \<Rightarrow> 'f pyval \<Rightarrow> pyerror + string" where
  "format_0f lib (PFloat x) = Inr (float_format_0f lib x)"
| "format_0f lib (PBool b) = Inr (float_format_0f lib (float_of_bool lib b))"
| "format_0f lib PNaN = Inr ''nan''"
| "format_0f lib PNA = Inr ''<NA>''"
| "format_0f lib (PStr s) = Inl ValueError"
| "format_0f lib PNone = Inl TypeError"

text \<open>\<^verbatim>\<open>str(n)\<close> for a non-negative \<^verbatim>\<open>int\<close>: its decimal digits.\<close>

fun str_nat :: "nat \<Rightarrow> string" where
  "str_nat n =
     (if n < 10 then [''0123456789'' ! n]
      else str_nat (n div 10) @ [''0123456789'' ! (n mod 10)])"

text \<open>\<^verbatim>\<open>sep.join(parts)\<close>.\<close>

fun join :: "string \<Rightarrow> string list \<Rightarrow> string" where
  "join sep [] = []"
| "join sep [x] = x"
| "join sep (x # y # ys) = x @ sep @ join sep (y # ys)"

text \<open>\<^verbatim>\<open>str(xs)\<close> for a list of \<^verbatim>\<open>str\<close>: the \<^verbatim>\<open>repr\<close> of each element, in brackets.\<close>

definition str_list :: "'f pylib \<Rightarrow> string list \<Rightarrow> string" where
  "str_list lib xs = ''['' @ join '', '' (map (str_repr lib) xs) @ '']''"

text \<open>
  A data frame has column labels and rows. A row holds the cells that were supplied for
  it, by label; pandas fills a cell of an existing column that was not supplied with NaN.
  \<open>row_get cols job key d\<close> is \<^verbatim>\<open>job.get(key, d)\<close> for a row \<^verbatim>\<open>job\<close> delivered by
  \<^verbatim>\<open>iterrows\<close>: the default is used only when the frame has no such column.
  \<open>df_get\<close> is \<^verbatim>\<open>jobs_df.get(key)\<close>, a whole column or \<^verbatim>\<open>None\<close>.
\<close>

type_synonym 'f row = "(string \<times> 'f pyval) list"

record 'f dataframe =
  columns :: "string list"
  rows :: "'f row list"

definition row_get :: "string list \<Rightarrow> 'f row \<Rightarrow> string \<Rightarrow> 'f pyval \<Rightarrow> 'f pyval" where
  "row_get cols job key d =
     (if key \<in> set cols then (case map_of job key of Some v \<Rightarrow> v | None \<Rightarrow> PNaN) else d)"

definition df_get :: "'f dataframe \<Rightarrow> string \<Rightarrow> 'f pyval list option" where
  "df_get df key =
     (if key \<in> set (columns df)
      then Some (map (\<lambda>job. row_get (columns df) job key PNone) (rows df))
      else None)"

text \<open>\<^verbatim>\<open>jobs_df.empty\<close>: true when either axis has length zero.\<close>

definition df_empty :: "'f dataframe \<Rightarrow> bool" where
  "df_empty df = (rows df = [] \<or> columns df = [])"

text \<open>\<^verbatim>\<open>value.fillna(d)\<close> on one cell.\<close>

definition fillna :: "'f pyval \<Rightarrow> 'f pyval \<Rightarrow> 'f pyval" where
  "fillna d v = (if notna v then v else d)"

text \<open>Running a list of computations that may raise, stopping at the first error.\<close>

fun sequence_err :: "('e + 'a) list \<Rightarrow> 'e + 'a list" where
  "sequence_err [] = Inr []"
| "sequence_err (m # ms) =
     (case m of
        Inl e \<Rightarrow> Inl e
      | Inr x \<Rightarrow> (case sequence_err ms of Inl e \<Rightarrow> Inl e | Inr xs \<Rightarrow> Inr (x # xs)))"

text \<open>
  \<^verbatim>\<open>Series.mean()\<close>: null cells are skipped, a \<^verbatim>\<open>bool\<close> counts as a number, a
  \<^verbatim>\<open>str\<close> cannot be averaged.
\<close>

fun as_float :: "'f pylib \<Rightarrow> 'f pyval \<Rightarrow> 'f option" where
  "as_float lib (PFloat x) = Some x"
| "as_float lib (PBool b) = Some (float_of_bool lib b)"
| "as_float lib v = None"

definition series_mean :: "'f pylib \<Rightarrow> 'f pyval list \<Rightarrow> pyerror + 'f" where
  "series_mean lib vs =
     (case those (map (as_float lib) (filter notna vs)) of
        None \<Rightarrow> Inl TypeError
      | Some xs \<Rightarrow> Inr (float_mean lib xs))"

section \<open>The job search helper\<close>

subsection \<open>Configuration and request\<close>

definition DEFAULT_SITES :: "string list" where
  "DEFAULT_SITES = [''indeed'', ''linkedin'', ''zip_recruiter'', ''google'']"

definition VALID_SITES :: "string list" where
  "VALID_SITES =
     [''linkedin'', ''indeed'', ''glassdoor'', ''zip_recruiter'',
      ''google'', ''bayt'', ''naukri'', ''bdjobs'']"

text \<open>\<^verbatim>\<open>_trim_description(text, limit)\<close>; the caller uses the default limit 300.\<close>

definition trim_description :: "string \<Rightarrow> nat \<Rightarrow> string" where
  "trim_description text limit =
     (if length text \<le> limit then text else take limit text @ ''...'')"

text \<open>The parameters of \<^verbatim>\<open>scrape_jobs_tool\<close>.\<close>

record request =
  search_term :: string
  location :: "string option"
  site_name :: "string list option"
  results_wanted :: int
  job_type :: "string option"
  is_remote :: bool
  hours_old :: "int option"
  distance :: int
  easy_apply :: bool
  country_indeed :: string
  linkedin_fetch_description :: bool
  offset :: int
  verbose :: int

text \<open>
  The keyword arguments of the one call of JobSpy's \<^verbatim>\<open>scrape_jobs\<close>. The collaborator
  is a function of them that returns a data frame (\<open>Inr\<close>) or raises an
  \<^verbatim>\<open>Exception\<close>, of which the code uses \<^verbatim>\<open>str(exc)\<close> only (\<open>Inl\<close>).
\<close>

record scrape_args =
  kw_site_name :: "string list"
  kw_search_term :: string
  kw_location :: "string option"
  kw_results_wanted :: int
  kw_job_type :: "string option"
  kw_is_remote :: bool
  kw_hours_old :: "int option"
  kw_distance :: int
  kw_easy_apply :: bool
  kw_country_indeed :: string
  kw_linkedin_fetch_description :: bool
  kw_offset :: int
  kw_verbose :: int
  kw_description_format :: string

type_synonym 'f scraper = "scrape_args \<Rightarrow> string + 'f dataframe"

definition requested_sites :: "request \<Rightarrow> string list" where
  "requested_sites rq = (case site_name rq of Some s \<Rightarrow> s | None \<Rightarrow> DEFAULT_SITES)"

definition call_args :: "request \<Rightarrow> scrape_args" where
  "call_args rq =
     \<lparr> kw_site_name = requested_sites rq,
       kw_search_term = search_term rq,
       kw_location = location rq,
       kw_results_wanted = results_wanted rq,
       kw_job_type = job_type rq,
       kw_is_remote = is_remote rq,
       kw_hours_old = hours_old rq,
       kw_distance = distance rq,
       kw_easy_apply = easy_apply rq,
       kw_country_indeed = country_indeed rq,
       kw_linkedin_fetch_description = linkedin_fetch_description rq,
       kw_offset = offset rq,
       kw_verbose = verbose rq,
       kw_description_format = ''markdown'' \<rparr>"

subsection \<open>One listing block (the body of the loop, lines 100 to 140)\<close>

definition source_line :: "'f pylib \<Rightarrow> string list \<Rightarrow> 'f row \<Rightarrow> pyerror + string" where
  "source_line lib cols job =
     (case row_get cols job ''site'' (PStr ''N/A'') of
        PStr s \<Rightarrow> Inr (''Source: '' @ str_title lib s)
      | _ \<Rightarrow> Inl AttributeError)"

definition optional_line ::
  "'f pylib \<Rightarrow> string list \<Rightarrow> 'f row \<Rightarrow> string \<Rightarrow> string \<Rightarrow> string list" where
  "optional_line lib cols job key label =
     (let v = row_get cols job key PNone
      in if notna v then [label @ py_str lib v] else [])"

definition salary_lines :: "'f pylib \<Rightarrow> string list \<Rightarrow> 'f row \<Rightarrow> pyerror + string list" where
  "salary_lines lib cols job =
     (let lo = row_get cols job ''min_amount'' PNone;
          hi = row_get cols job ''max_amount'' PNone
      in if notna lo \<and> notna hi then
           (let currency = row_get cols job ''currency'' (PStr ''USD'');
                interval = row_get cols job ''interval'' (PStr ''yearly'')
            in case format_0f lib lo of
                 Inl e \<Rightarrow> Inl e
               | Inr a \<Rightarrow>
                   (case format_0f lib hi of
                      Inl e \<Rightarrow> Inl e
                    | Inr b \<Rightarrow>
                        Inr [''Salary: '' @ a @ '' - '' @ b @ '' '' @ py_str lib currency
                               @ '' ('' @ py_str lib interval @ '')'']))
         else Inr [])"

definition remote_lines :: "'f pylib \<Rightarrow> string list \<Rightarrow> 'f row \<Rightarrow> pyerror + string list" where
  "remote_lines lib cols job =
     (case py_bool lib (row_get cols job ''is_remote'' PNone) of
        Inl e \<Rightarrow> Inl e
      | Inr b \<Rightarrow> Inr (if b then [''Remote work available''] else []))"

definition description_lines :: "'f pylib \<Rightarrow> string list \<Rightarrow> 'f row \<Rightarrow> string list" where
  "description_lines lib cols job =
     (let v = row_get cols job ''description'' PNone
      in if notna v then [''Description: '' @ trim_description (py_str lib v) 300] else [])"

definition rating_lines :: "'f pylib \<Rightarrow> string list \<Rightarrow> 'f row \<Rightarrow> string list" where
  "rating_lines lib cols job =
     (let v = row_get cols job ''company_rating'' PNone
      in if notna v then [''Company Rating: '' @ py_str lib v @ ''/5''] else [])"

definition mandatory_lines :: "'f pylib \<Rightarrow> string list \<Rightarrow> nat \<Rightarrow> 'f row \<Rightarrow> string list" where
  "mandatory_lines lib cols index job =
     [str_nat index @ ''. '' @ py_str lib (row_get cols job ''title'' (PStr ''N/A'')),
      ''Company: '' @ py_str lib (row_get cols job ''company'' (PStr ''N/A'')),
      ''Location: '' @ py_str lib (row_get cols job ''location'' (PStr ''N/A''))]"

definition listing_parts ::
  "'f pylib \<Rightarrow> string list \<Rightarrow> nat \<Rightarrow> 'f row \<Rightarrow> pyerror + string list" where
  "listing_parts lib cols index job =
     (case source_line lib cols job of
        Inl e \<Rightarrow> Inl e
      | Inr src \<Rightarrow>
     (case salary_lines lib cols job of
        Inl e \<Rightarrow> Inl e
      | Inr salary \<Rightarrow>
     (case remote_lines lib cols job of
        Inl e \<Rightarrow> Inl e
      | Inr remote \<Rightarrow>
          Inr (mandatory_lines lib cols index job @ [src]
               @ optional_line lib cols job ''job_type'' ''Type: ''
               @ optional_line lib cols job ''date_posted'' ''Posted: ''
               @ salary
               @ remote
               @ optional_line lib cols job ''job_url'' ''Apply: ''
               @ description_lines lib cols job
               @ optional_line lib cols job ''company_industry'' ''Industry: ''
               @ optional_line lib cols job ''job_level'' ''Level: ''
               @ optional_line lib cols job ''skills'' ''Skills: ''
               @ optional_line lib cols job ''experience_range'' ''Experience: ''
               @ rating_lines lib cols job))))"

text \<open>
  The loop \<^verbatim>\<open>for index, (_, job) in enumerate(jobs_df.iterrows(), start=1)\<close>: the first
  row that raises ends it.
\<close>

fun listings_from ::
  "'f pylib \<Rightarrow> string list \<Rightarrow> nat \<Rightarrow> 'f row list \<Rightarrow> pyerror + string list" where
  "listings_from lib cols index [] = Inr []"
| "listings_from lib cols index (job # jobs) =
     (case listing_parts lib cols index job of
        Inl e \<Rightarrow> Inl e
      | Inr parts \<Rightarrow>
          (case listings_from lib cols (Suc index) jobs of
             Inl e \<Rightarrow> Inl e
           | Inr ls \<Rightarrow> Inr (join [CHR 0x0A] parts # ls)))"

subsection \<open>The summary (lines 142 to 172)\<close>

text \<open>
  \<^verbatim>\<open>int(remote_column.fillna(False).astype(bool).sum())\<close>, or 0 without the column.
\<close>

definition remote_count :: "'f pylib \<Rightarrow> 'f dataframe \<Rightarrow> pyerror + nat" where
  "remote_count lib df =
     (case df_get df ''is_remote'' of
        Some remote_column \<Rightarrow>
          (case sequence_err (map (py_bool lib \<circ> fillna (PBool False)) remote_column) of
             Inl e \<Rightarrow> Inl e
           | Inr bs \<Rightarrow> Inr (length (filter (\<lambda>b. b) bs)))
      | None \<Rightarrow> Inr 0)"

text \<open>The rows selected by \<^verbatim>\<open>salary_mask\<close>.\<close>

definition salary_mask :: "string list \<Rightarrow> 'f row \<Rightarrow> bool" where
  "salary_mask cols job =
     (notna (row_get cols job ''min_amount'' PNone)
      \<and> notna (row_get cols job ''max_amount'' PNone))"

definition salary_summary :: "'f pylib \<Rightarrow> 'f dataframe \<Rightarrow> pyerror + string list" where
  "salary_summary lib df =
     (if df_get df ''min_amount'' \<noteq> None \<and> df_get df ''max_amount'' \<noteq> None then
        (let salary_jobs = filter (salary_mask (columns df)) (rows df)
         in if salary_jobs \<noteq> [] then
              (case series_mean lib
                      (map (\<lambda>job. row_get (columns df) job ''min_amount'' PNone) salary_jobs) of
                 Inl e \<Rightarrow> Inl e
               | Inr avg_min \<Rightarrow>
              (case series_mean lib
                      (map (\<lambda>job. row_get (columns df) job ''max_amount'' PNone) salary_jobs) of
                 Inl e \<Rightarrow> Inl e
               | Inr avg_max \<Rightarrow>
                   Inr [''Jobs with salary info: '' @ str_nat (length salary_jobs),
                        ''Average salary range: '' @ float_format_0f lib avg_min
                          @ '' - '' @ float_format_0f lib avg_max]))
            else Inr [])
      else Inr [])"

subsection \<open>The report (lines 87 to 175) and the tool\<close>

definition NO_JOBS :: string where
  "NO_JOBS = ''No jobs found that match your criteria. Try adjusting your search parameters.''"

definition results_summary :: "request \<Rightarrow> 'f dataframe \<Rightarrow> string" where
  "results_summary rq df =
     ''Found '' @ str_nat (length (rows df)) @ '' jobs for ''
       @ [CHR 0x27] @ search_term rq @ [CHR 0x27]
       @ (case location rq of
            Some loc \<Rightarrow> if loc \<noteq> [] then '' in '' @ loc else []
          | None \<Rightarrow> [])"

text \<open>
  The list \<^verbatim>\<open>summary_lines\<close> as first built (lines 148 to 157), from the listings
  and the remote count; the salary statistics extend it afterwards.
\<close>

definition summary_lines ::
  "request \<Rightarrow> string list \<Rightarrow> 'f dataframe \<Rightarrow> string list \<Rightarrow> nat \<Rightarrow> string list" where
  "summary_lines rq sites df listings remote =
     [results_summary rq df,
      '''',
      join ([CHR 0x0A] @ ''---'' @ [CHR 0x0A]) listings,
      '''',
      ''Search Summary'',
      ''Total jobs found: '' @ str_nat (length (rows df)),
      ''Sites searched: '' @ join '', '' sites,
      ''Remote jobs: '' @ str_nat remote]"

definition format_report ::
  "'f pylib \<Rightarrow> request \<Rightarrow> string list \<Rightarrow> 'f dataframe \<Rightarrow> pyerror + string" where
  "format_report lib rq sites df =
     (if df_empty df then Inr NO_JOBS
      else
        (case listings_from lib (columns df) 1 (rows df) of
           Inl e \<Rightarrow> Inl e
         | Inr listings \<Rightarrow>
        (case remote_count lib df of
           Inl e \<Rightarrow> Inl e
         | Inr remote \<Rightarrow>
        (case salary_summary lib df of
           Inl e \<Rightarrow> Inl e
         | Inr salary \<Rightarrow>
             Inr (join [CHR 0x0A] (summary_lines rq sites df listings remote @ salary))))))"

text \<open>
  \<^verbatim>\<open>scrape_jobs_tool\<close>. The first component of the result lists the calls made to the
  collaborator, the second is what the function returns (\<open>Inr\<close>) or the exception that
  leaves it (\<open>Inl\<close>). The four calls of the logger do not touch the result and are left
  out.
\<close>

definition scrape_jobs_tool ::
  "'f pylib \<Rightarrow> 'f scraper \<Rightarrow> request \<Rightarrow> scrape_args list \<times> (pyerror + string)" where
  "scrape_jobs_tool lib scrape_jobs rq =
     (let sites = requested_sites rq;
          invalid_sites = filter (\<lambda>site. site \<notin> set VALID_SITES) sites
      in if invalid_sites \<noteq> [] then
           ([], Inr (''Error: invalid site names: '' @ str_list lib invalid_sites
                     @ ''. Valid sites: '' @ str_list lib (sort VALID_SITES)))
         else
           (case scrape_jobs (call_args rq) of
              Inl exc \<Rightarrow> ([call_args rq], Inr (''Error scraping jobs: '' @ exc))
            | Inr jobs_df \<Rightarrow> ([call_args rq], format_report lib rq sites jobs_df)))"

text \<open>
  \<^verbatim>\<open>_VALID_SITES\<close> is a Python set, and the order in which a set of strings is iterated
  changes from one run of the interpreter to the next. \<open>scrape_jobs_tool_in_order\<close> is
  the same function with that order made explicit: \<open>valid_sites\<close> lists the elements of
  the set in the order in which this run iterates over them. The code uses the set in
  the membership test of line 59 and under \<^verbatim>\<open>sorted\<close> in line 63.
\<close>

definition scrape_jobs_tool_in_order ::
  "string list \<Rightarrow> 'f pylib \<Rightarrow> 'f scraper \<Rightarrow> request
     \<Rightarrow> scrape_args list \<times> (pyerror + string)" where
  "scrape_jobs_tool_in_order valid_sites lib scrape_jobs rq =
     (let sites = requested_sites rq;
          invalid_sites = filter (\<lambda>site. site \<notin> set valid_sites) sites
      in if invalid_sites \<noteq> [] then
           ([], Inr (''Error: invalid site names: '' @ str_list lib invalid_sites
                     @ ''. Valid sites: '' @ str_list lib (sort valid_sites)))
         else
           (case scrape_jobs (call_args rq) of
              Inl exc \<Rightarrow> ([call_args rq], Inr (''Error scraping jobs: '' @ exc))
            | Inr jobs_df \<Rightarrow> ([call_args rq], format_report lib rq sites jobs_df)))"

subsection \<open>Predicates used in the statements\<close>

text \<open>
  The formatting code is outside the \<^verbatim>\<open>try\<close> block and relies on the types of three
  cells: it calls \<^verbatim>\<open>.title()\<close> on the site, formats the two salary bounds with
  \<^verbatim>\<open>,.0f\<close> when both are non-null, and tests the remote flag with \<^verbatim>\<open>if\<close>.
  \<open>row_well_typed\<close> says that a row passes all three.
\<close>

fun is_str :: "'f pyval \<Rightarrow> bool" where
  "is_str (PStr s) = True"
| "is_str v = False"

definition row_well_typed :: "string list \<Rightarrow> 'f row \<Rightarrow> bool" where
  "row_well_typed cols job =
     (is_str (row_get cols job ''site'' (PStr ''N/A''))
      \<and> (if salary_mask cols job
         then \<not> is_str (row_get cols job ''min_amount'' PNone)
              \<and> \<not> is_str (row_get cols job ''max_amount'' PNone)
         else True)
      \<and> row_get cols job ''is_remote'' PNone \<noteq> PNA)"

text \<open>
  The first two conditions alone, which concern cells that the collaborator fills with a
  \<^verbatim>\<open>str\<close> and with numbers, and the third alone, which concerns a null.
\<close>

definition row_formattable :: "string list \<Rightarrow> 'f row \<Rightarrow> bool" where
  "row_formattable cols job =
     (is_str (row_get cols job ''site'' (PStr ''N/A''))
      \<and> (if salary_mask cols job
         then \<not> is_str (row_get cols job ''min_amount'' PNone)
              \<and> \<not> is_str (row_get cols job ''max_amount'' PNone)
         else True))"

definition remote_flag_testable :: "string list \<Rightarrow> 'f row \<Rightarrow> bool" where
  "remote_flag_testable cols job = (row_get cols job ''is_remote'' PNone \<noteq> PNA)"

text \<open>
  What the claim on the salary statistics says of the two library operations involved,
  in terms of the exact value \<open>val x\<close> of a float \<open>x\<close>: the mean of a column that is
  not empty is the arithmetic mean of its values, and the format \<^verbatim>\<open>,.0f\<close> shows a value
  rounded to no decimal places (a tie going to the even neighbour, as Python rounds),
  with a comma between groups of three digits and the sign of a negative value in front.
\<close>

fun group_thousands :: "nat \<Rightarrow> string" where
  "group_thousands n =
     (if n < 1000 then str_nat n
      else group_thousands (n div 1000) @ '','' @
           [''0123456789'' ! (n mod 1000 div 100), ''0123456789'' ! (n mod 100 div 10),
            ''0123456789'' ! (n mod 10)])"

definition round_half_even :: "rat \<Rightarrow> int" where
  "round_half_even q =
     (let f = \<lfloor>q\<rfloor>; r = q - of_int f
      in if r < 1 / 2 then f
         else if 1 / 2 < r then f + 1
         else if even f then f else f + 1)"

definition format_rounded :: "rat \<Rightarrow> string" where
  "format_rounded q =
     (if q < 0 then ''-'' else []) @ group_thousands (nat (round_half_even \<bar>q\<bar>))"


text \<open>
  The remote flag of a row coerced to a boolean, a flag that is not present (no column,
  or a null cell) counting as false.
\<close>

definition coerced_remote :: "'f pylib \<Rightarrow> string list \<Rightarrow> 'f row \<Rightarrow> bool" where
  "coerced_remote lib cols job =
     (let v = row_get cols job ''is_remote'' PNone
      in notna v \<and> py_bool lib v = Inr True)"

text \<open>What a mandatory line shows for a column: the cell, or the placeholder.\<close>

definition shown :: "'f pylib \<Rightarrow> string list \<Rightarrow> 'f row \<Rightarrow> string \<Rightarrow> string" where
  "shown lib cols job key =
     (if key \<in> set cols then py_str lib (row_get cols job key PNone) else ''N/A'')"

section \<open>A concrete library for the examples\<close>

text \<open>
  The examples below run the model on concrete inputs and need concrete library
  operations. This instance covers ASCII text, and floats whose value is a rational of
  magnitude between \<open>1 / 10000\<close> and \<open>10 ^ 16\<close> (or zero) with at most 17 decimal digits
  after the point, a float being represented by that rational:
  \<^verbatim>\<open>str(85000.0)\<close> is \<^verbatim>\<open>'85000.0'\<close>, \<^verbatim>\<open>str(4.25)\<close> is \<^verbatim>\<open>'4.25'\<close>,
  \<^verbatim>\<open>format(87500.5, ',.0f')\<close> is \<^verbatim>\<open>'87,500'\<close>, and the mean of 85000.0 and 90001.0 is
  87500.5.
\<close>

definition repr_char :: "char \<Rightarrow> char \<Rightarrow> string" where
  "repr_char q c =
     (if c = q \<or> c = CHR 0x5C then [CHR 0x5C, c]
      else if c = CHR 0x09 then [CHR 0x5C, CHR ''t'']
      else if c = CHR 0x0A then [CHR 0x5C, CHR ''n'']
      else if c = CHR 0x0D then [CHR 0x5C, CHR ''r'']
      else if (of_char c :: nat) < 32 \<or> (of_char c :: nat) = 127 then
        [CHR 0x5C, CHR ''x'', ''0123456789abcdef'' ! (of_char c div 16),
         ''0123456789abcdef'' ! (of_char c mod 16)]
      else [c])"

definition ascii_repr :: "string \<Rightarrow> string" where
  "ascii_repr s =
     (let q = (if CHR 0x27 \<in> set s \<and> CHR 0x22 \<notin> set s then CHR 0x22 else CHR 0x27)
      in [q] @ concat (map (repr_char q) s) @ [q])"

fun title_from :: "bool \<Rightarrow> string \<Rightarrow> string" where
  "title_from cased [] = []"
| "title_from cased (c # cs) =
     (if CHR ''a'' \<le> c \<and> c \<le> CHR ''z'' then
        (if cased then c else char_of (of_char c - (32::nat))) # title_from True cs
      else if CHR ''A'' \<le> c \<and> c \<le> CHR ''Z'' then
        (if cased then char_of (of_char c + (32::nat)) else c) # title_from True cs
      else c # title_from False cs)"

definition ascii_title :: "string \<Rightarrow> string" where
  "ascii_title s = title_from False s"

fun frac_digits :: "nat \<Rightarrow> rat \<Rightarrow> string" where
  "frac_digits 0 r = []"
| "frac_digits (Suc n) r =
     (let d = \<lfloor>r * 10\<rfloor>; r' = r * 10 - of_int d
      in (''0123456789'' ! nat d) # (if r' = 0 then [] else frac_digits n r'))"

definition example_lib :: "rat pylib" where
  "example_lib =
     \<lparr> str_repr = ascii_repr,
       str_title = ascii_title,
       float_str = (\<lambda>x. (if x < 0 then ''-'' else []) @ str_nat (nat \<lfloor>\<bar>x\<bar>\<rfloor>) @ ''.''
                          @ frac_digits 17 (\<bar>x\<bar> - of_int \<lfloor>\<bar>x\<bar>\<rfloor>)),
       float_format_0f = format_rounded,
       float_of_bool = (\<lambda>b. if b then 1 else 0),
       float_bool = (\<lambda>x. x \<noteq> 0),
       float_mean = (\<lambda>xs. sum_list xs / of_nat (length xs)) \<rparr>"

definition example_request :: "string list option \<Rightarrow> request" where
  "example_request sites =
     \<lparr> search_term = ''python developer'', location = None, site_name = sites,
       results_wanted = 2, job_type = None, is_remote = False, hours_old = None,
       distance = 50, easy_apply = False, country_indeed = ''usa'',
       linkedin_fetch_description = False, offset = 0, verbose = 1 \<rparr>"

text \<open>
  Two rows, the first with salary and remote flag, the second minimal, as in the example
  of the specification.
\<close>

definition example_frame :: "rat dataframe" where
  "example_frame =
     \<lparr> columns = [''site'', ''title'', ''company'', ''location'', ''min_amount'',
                  ''max_amount'', ''is_remote'', ''description''],
       rows =
         [[(''site'', PStr ''indeed''), (''title'', PStr ''Python Developer''),
           (''company'', PStr ''Acme''), (''location'', PStr ''Austin, TX''),
           (''min_amount'', PFloat 85000), (''max_amount'', PFloat 120000),
           (''is_remote'', PBool True), (''description'', PStr ''Build services.'')],
          [(''site'', PStr ''zip_recruiter''), (''title'', PStr ''Backend Engineer''),
           (''company'', PStr ''Initech''), (''location'', PStr ''Remote''),
           (''min_amount'', PNaN), (''max_amount'', PNaN),
           (''is_remote'', PNone), (''description'', PNaN)]] \<rparr>"

text \<open>What the tool returns for \<open>example_scraper\<close> when asked for the site indeed.\<close>

definition example_output :: string where
  "example_output =
     ''Found 2 jobs for 'python developer'\<newline>\<newline>1. Python Developer\<newline>Company: Acme\<newline>Location: Austin, TX\<newline>Source: Indeed\<newline>Salary: 85,000 - 120,000 USD (yearly)\<newline>Remote work available\<newline>Description: Build services.\<newline>---\<newline>2. Backend Engineer\<newline>Company: Initech\<newline>Location: Remote\<newline>Source: Zip_Recruiter\<newline>\<newline>Search Summary\<newline>Total jobs found: 2\<newline>Sites searched: indeed\<newline>Remote jobs: 1\<newline>Jobs with salary info: 1\<newline>Average salary range: 85,000 - 120,000''"

definition example_scraper :: "rat scraper" where
  "example_scraper args = Inr example_frame"

text \<open>A collaborator that raises, and one that returns no rows.\<close>

definition failing_scraper :: "rat scraper" where
  "failing_scraper args = Inl ''timed out''"

definition empty_scraper :: "rat scraper" where
  "empty_scraper args = Inr \<lparr>columns = [], rows = []\<rparr>"

text \<open>A row whose site cell is \<^verbatim>\<open>None\<close>.\<close>

definition null_site_frame :: "rat dataframe" where
  "null_site_frame =
     \<lparr> columns = [''site'', ''title''],
       rows = [[(''site'', PNone), (''title'', PStr ''Python Developer'')]] \<rparr>"

definition null_site_scraper :: "rat scraper" where
  "null_site_scraper args = Inr null_site_frame"

text \<open>
  A row whose remote flag is missing: NaN, as \<^verbatim>\<open>pandas.concat\<close> fills it for a row that
  came without the column, and \<^verbatim>\<open>pandas.NA\<close>, the null of the nullable dtypes.
\<close>

definition nan_remote_frame :: "rat dataframe" where
  "nan_remote_frame =
     \<lparr> columns = [''site'', ''title'', ''is_remote''],
       rows = [[(''site'', PStr ''indeed''), (''title'', PStr ''Python Developer''),
                (''is_remote'', PNaN)]] \<rparr>"

definition nan_remote_scraper :: "rat scraper" where
  "nan_remote_scraper args = Inr nan_remote_frame"

text \<open>What the tool returns for \<open>nan_remote_scraper\<close> when asked for the site indeed.\<close>

definition nan_remote_output :: string where
  "nan_remote_output =
     ''Found 1 jobs for 'python developer'\<newline>\<newline>1. Python Developer\<newline>Company: N/A\<newline>Location: N/A\<newline>Source: Indeed\<newline>Remote work available\<newline>\<newline>Search Summary\<newline>Total jobs found: 1\<newline>Sites searched: indeed\<newline>Remote jobs: 0''"

definition na_remote_frame :: "rat dataframe" where
  "na_remote_frame =
     \<lparr> columns = [''site'', ''title'', ''is_remote''],
       rows = [[(''site'', PStr ''indeed''), (''title'', PStr ''Python Developer''),
                (''is_remote'', PNA)]] \<rparr>"

definition na_remote_scraper :: "rat scraper" where
  "na_remote_scraper args = Inr na_remote_frame"




text \<open>
  A second collaborator, which answers the call of the tool as \<open>example_scraper\<close> does and
  fails on every call that does not ask for markdown descriptions.
\<close>

definition other_scraper :: "rat scraper" where
  "other_scraper args =
     (if kw_description_format args = ''markdown'' then Inr example_frame else Inl ''offline'')"

section \<open>Properties\<close>

subsection \<open>Validation and truncation\<close>


lemma sort_VALID_SITES:
  "sort VALID_SITES =
     [''bayt'', ''bdjobs'', ''glassdoor'', ''google'', ''indeed'', ''linkedin'', ''naukri'',
      ''zip_recruiter'']"
  unfolding VALID_SITES_def by code_simp

lemma DEFAULT_SITES_valid: "set DEFAULT_SITES \<subseteq> set VALID_SITES"
  by (simp add: DEFAULT_SITES_def VALID_SITES_def)

text \<open>
  Claim C3. A description longer than 300 characters is rendered as its first 300
  characters followed by \<^verbatim>\<open>...\<close>, 303 characters in all; a description of at most 300
  characters is rendered unchanged. The description line of a listing shows a non-null
  description cell rendered so.
\<close>

theorem trim_description_law:
  "(300 < length text \<longrightarrow>
      trim_description text 300 = take 300 text @ ''...''
      \<and> length (trim_description text 300) = 303)
   \<and> (length text \<le> 300 \<longrightarrow> trim_description text 300 = text)
   \<and> (notna (row_get cols job ''description'' PNone) \<longrightarrow>
        description_lines lib cols job =
          [''Description: ''
             @ trim_description (py_str lib (row_get cols job ''description'' PNone)) 300])"
  by (simp add: trim_description_def description_lines_def Let_def)

theorem trim_description_law_witness:
  "300 < length (replicate 301 (CHR ''a''))
   \<and> trim_description (replicate 301 (CHR ''a'')) 300 = replicate 300 (CHR ''a'') @ ''...''
   \<and> length (trim_description (replicate 301 (CHR ''a'')) 300) = 303
   \<and> length ''Build services.'' \<le> 300
   \<and> trim_description ''Build services.'' 300 = ''Build services.''
   \<and> notna (row_get [''description''] [(''description'', PStr ''Build services.'')]
              ''description'' (PNone :: rat pyval))
   \<and> description_lines example_lib [''description'']
         [(''description'', PStr ''Build services.'')]
       = [''Description: Build services.'']"
proof -
  have n: "notna (row_get [''description''] [(''description'', PStr ''Build services.'')]
                    ''description'' (PNone :: rat pyval))"
    by (simp add: row_get_def)
  show ?thesis
    using n
      trim_description_law [of "replicate 301 (CHR ''a'')" "[''description'']"
         "[(''description'', PStr ''Build services.'')]" example_lib]
      trim_description_law [of "''Build services.''" "[''description'']"
         "[(''description'', PStr ''Build services.'')]" example_lib]
    by (simp add: row_get_def)
qed

text \<open>
  Claim C2. When a requested site is not one of the eight valid sites, the tool returns
  the string that starts with \<^verbatim>\<open>Error: invalid site names\<close>, lists the invalid sites
  and the valid ones, and makes no call to the collaborator.
\<close>

theorem invalid_sites_rejected:
  assumes "\<exists>site \<in> set (requested_sites rq). site \<notin> set VALID_SITES"
  shows "scrape_jobs_tool lib scrape_jobs rq =
           ([], Inr (''Error: invalid site names: ''
                     @ str_list lib (filter (\<lambda>site. site \<notin> set VALID_SITES) (requested_sites rq))
                     @ ''. Valid sites: ''
                     @ str_list lib [''bayt'', ''bdjobs'', ''glassdoor'', ''google'', ''indeed'',
                                     ''linkedin'', ''naukri'', ''zip_recruiter'']))"
proof -
  from assms have "filter (\<lambda>site. site \<notin> set VALID_SITES) (requested_sites rq) \<noteq> []"
    by (simp add: filter_empty_conv)
  then show ?thesis
    by (simp add: scrape_jobs_tool_def Let_def sort_VALID_SITES)
qed

theorem invalid_sites_rejected_witness:
  "(\<exists>site \<in> set (requested_sites (example_request (Some [''monster'']))). site \<notin> set VALID_SITES)
   \<and> scrape_jobs_tool example_lib (\<lambda>_. Inr example_frame) (example_request (Some [''monster'']))
       = ([], Inr ''Error: invalid site names: ['monster']. Valid sites: ['bayt', 'bdjobs', 'glassdoor', 'google', 'indeed', 'linkedin', 'naukri', 'zip_recruiter']'')"
proof -
  have h: "\<exists>site \<in> set (requested_sites (example_request (Some [''monster'']))). site \<notin> set VALID_SITES"
    by (simp add: requested_sites_def example_request_def VALID_SITES_def)
  have f: "filter (\<lambda>site. site \<notin> set VALID_SITES) (requested_sites (example_request (Some [''monster''])))
             = [''monster'']"
    by (simp add: requested_sites_def example_request_def VALID_SITES_def)
  show ?thesis
    using h invalid_sites_rejected [OF h, of example_lib "\<lambda>_. Inr example_frame"]
    by (simp add: f str_list_def example_lib_def ascii_repr_def repr_char_def Let_def)
qed

subsection \<open>Which rows the formatting code accepts, and what the summary counts\<close>

lemma source_line_Inr:
  "(\<exists>l. source_line lib cols job = Inr l) \<longleftrightarrow> is_str (row_get cols job ''site'' (PStr ''N/A''))"
  by (cases "row_get cols job ''site'' (PStr ''N/A'')") (simp_all add: source_line_def)

lemma format_0f_Inr: "notna v \<Longrightarrow> (\<exists>s. format_0f lib v = Inr s) \<longleftrightarrow> \<not> is_str v"
  by (cases v) simp_all

lemma salary_lines_Inr:
  "(\<exists>ls. salary_lines lib cols job = Inr ls) \<longleftrightarrow>
     (if salary_mask cols job
      then \<not> is_str (row_get cols job ''min_amount'' PNone)
           \<and> \<not> is_str (row_get cols job ''max_amount'' PNone)
      else True)"
proof (cases "salary_mask cols job")
  case False
  then show ?thesis by (auto simp: salary_lines_def salary_mask_def Let_def)
next
  case True
  then have lo: "notna (row_get cols job ''min_amount'' PNone)"
    and hi: "notna (row_get cols job ''max_amount'' PNone)"
    by (simp_all add: salary_mask_def)
  from format_0f_Inr [OF lo, of lib] format_0f_Inr [OF hi, of lib] True lo hi
  show ?thesis
    by (auto simp: salary_lines_def Let_def split: sum.splits)
qed

lemma remote_lines_Inr:
  "(\<exists>ls. remote_lines lib cols job = Inr ls) \<longleftrightarrow> row_get cols job ''is_remote'' PNone \<noteq> PNA"
  by (cases "row_get cols job ''is_remote'' PNone") (simp_all add: remote_lines_def)

lemma listing_parts_Inr:
  "(\<exists>parts. listing_parts lib cols index job = Inr parts) \<longleftrightarrow> row_well_typed cols job"
  using source_line_Inr [of lib cols job] salary_lines_Inr [of lib cols job]
        remote_lines_Inr [of lib cols job]
  unfolding listing_parts_def row_well_typed_def
  by (auto split: sum.splits)

lemma listings_from_Inr:
  "(\<exists>ls. listings_from lib cols index jobs = Inr ls) \<longleftrightarrow> list_all (row_well_typed cols) jobs"
proof (induction jobs arbitrary: index)
  case Nil
  show ?case by simp
next
  case (Cons job jobs)
  from Cons.IH [of "Suc index"] listing_parts_Inr [of lib cols index job]
  show ?case by (auto split: sum.splits)
qed


lemma sequence_err_Inr: "sequence_err (map (\<lambda>x. Inr (f x)) xs) = Inr (map f xs)"
  by (induction xs) simp_all

lemma py_bool_fillna:
  "py_bool lib (fillna (PBool False) v) = Inr (notna v \<and> py_bool lib v = Inr True)"
  by (cases v) (simp_all add: fillna_def)

lemma length_filter_map_id: "length (filter (\<lambda>b. b) (map f xs)) = length (filter f xs)"
  by (induction xs) simp_all

lemma row_get_absent: "key \<notin> set cols \<Longrightarrow> row_get cols job key d = d"
  by (simp add: row_get_def)

lemma remote_column_bools:
  "sequence_err (map (py_bool lib \<circ> fillna (PBool False))
                  (map (\<lambda>job. row_get cols job ''is_remote'' PNone) jobs))
   = Inr (map (coerced_remote lib cols) jobs)"
proof -
  have "map (py_bool lib \<circ> fillna (PBool False))
          (map (\<lambda>job. row_get cols job ''is_remote'' PNone) jobs)
        = map (\<lambda>job. Inr (coerced_remote lib cols job)) jobs"
    by (simp add: py_bool_fillna coerced_remote_def Let_def)
  then show ?thesis
    by (simp only: sequence_err_Inr)
qed

lemma remote_count_eq:
  "remote_count lib df = Inr (length (filter (coerced_remote lib (columns df)) (rows df)))"
proof (cases "''is_remote'' \<in> set (columns df)")
  case True
  then have "remote_count lib df =
      (case sequence_err (map (py_bool lib \<circ> fillna (PBool False))
                  (map (\<lambda>job. row_get (columns df) job ''is_remote'' PNone) (rows df))) of
         Inl e \<Rightarrow> Inl e
       | Inr bs \<Rightarrow> Inr (length (filter (\<lambda>b. b) bs)))"
    by (simp only: remote_count_def df_get_def if_True option.case)
  then show ?thesis
    by (simp only: remote_column_bools sum.case length_filter_map_id)
next
  case False
  then have "filter (coerced_remote lib (columns df)) (rows df) = []"
    by (simp add: filter_empty_conv coerced_remote_def row_get_absent)
  with False show ?thesis
    by (simp add: remote_count_def df_get_def)
qed

lemma those_eq_Some: "those ys = Some xs \<longleftrightarrow> ys = map Some xs"
proof (induction ys arbitrary: xs)
  case Nil
  show ?case by (cases xs) simp_all
next
  case (Cons y ys)
  show ?case
  proof (cases y)
    case None
    then show ?thesis by (cases xs) simp_all
  next
    case (Some a)
    show ?thesis
    proof (cases xs)
      case Nil
      with Some show ?thesis by (simp split: option.splits)
    next
      case (Cons x xs')
      with Some Cons.IH [of xs'] show ?thesis
        by (cases "those ys") auto
    qed
  qed
qed

lemma those_map_Some: "those (map Some xs) = Some xs"
  by (simp add: those_eq_Some)

lemma series_mean_Inr:
  "series_mean lib vs = Inr m \<longleftrightarrow>
     (\<exists>xs. map (as_float lib) (filter notna vs) = map Some xs \<and> m = float_mean lib xs)"
proof (cases "those (map (as_float lib) (filter notna vs))")
  case None
  have "\<And>xs. map (as_float lib) (filter notna vs) \<noteq> map Some xs"
  proof
    fix xs
    assume "map (as_float lib) (filter notna vs) = map Some xs"
    then have "those (map (as_float lib) (filter notna vs)) = Some xs"
      by (simp only: those_map_Some)
    with None show False by simp
  qed
  with None show ?thesis by (simp add: series_mean_def)
next
  case (Some ys)
  then have eq: "map (as_float lib) (filter notna vs) = map Some ys"
    by (simp add: those_eq_Some)
  have "\<And>xs. map Some xs = map Some ys \<longleftrightarrow> xs = ys"
    by (simp add: inj_map_eq_map)
  with Some eq show ?thesis by (auto simp: series_mean_def)
qed

lemma as_float_Some: "notna v \<Longrightarrow> \<not> is_str v \<Longrightarrow> \<exists>x. as_float lib v = Some x"
  by (cases v) simp_all

lemma as_float_all_Some:
  "\<forall>v \<in> set vs. notna v \<and> \<not> is_str v \<Longrightarrow> \<exists>xs. map (as_float lib) vs = map Some xs"
proof (induction vs)
  case Nil
  show ?case by simp
next
  case (Cons v vs)
  then obtain xs where xs: "map (as_float lib) vs = map Some xs" by auto
  from Cons.prems as_float_Some [of v lib] obtain x where "as_float lib v = Some x" by auto
  with xs have "map (as_float lib) (v # vs) = map Some (x # xs)" by simp
  then show ?case by blast
qed

lemma salary_mask_absent:
  "''min_amount'' \<notin> set cols \<or> ''max_amount'' \<notin> set cols \<Longrightarrow> \<not> salary_mask cols job"
  by (auto simp: salary_mask_def row_get_absent)

lemma salary_cells_notna:
  "filter notna (map (\<lambda>job. row_get cols job ''min_amount'' PNone) (filter (salary_mask cols) jobs))
     = map (\<lambda>job. row_get cols job ''min_amount'' PNone) (filter (salary_mask cols) jobs)"
  "filter notna (map (\<lambda>job. row_get cols job ''max_amount'' PNone) (filter (salary_mask cols) jobs))
     = map (\<lambda>job. row_get cols job ''max_amount'' PNone) (filter (salary_mask cols) jobs)"
  by (induction jobs) (simp_all add: salary_mask_def)

lemma salary_summary_none:
  "filter (salary_mask (columns df)) (rows df) = [] \<Longrightarrow> salary_summary lib df = Inr []"
  by (simp add: salary_summary_def Let_def)

lemma salary_summary_some:
  assumes "filter (salary_mask (columns df)) (rows df) \<noteq> []"
  shows "salary_summary lib df = Inr extra \<longleftrightarrow>
     (\<exists>mins maxs.
        map (as_float lib) (map (\<lambda>job. row_get (columns df) job ''min_amount'' PNone)
                              (filter (salary_mask (columns df)) (rows df))) = map Some mins
      \<and> map (as_float lib) (map (\<lambda>job. row_get (columns df) job ''max_amount'' PNone)
                              (filter (salary_mask (columns df)) (rows df))) = map Some maxs
      \<and> extra = [''Jobs with salary info: ''
                    @ str_nat (length (filter (salary_mask (columns df)) (rows df))),
                  ''Average salary range: '' @ float_format_0f lib (float_mean lib mins)
                    @ '' - '' @ float_format_0f lib (float_mean lib maxs)])"
proof -
  from assms obtain job where job: "job \<in> set (rows df)" "salary_mask (columns df) job"
    by (auto simp: filter_empty_conv)
  then have cols: "''min_amount'' \<in> set (columns df)" "''max_amount'' \<in> set (columns df)"
    using salary_mask_absent [of "columns df" job] by auto
  then have get: "df_get df ''min_amount'' \<noteq> None" "df_get df ''max_amount'' \<noteq> None"
    by (simp_all add: df_get_def)
  let ?mins = "map (\<lambda>job. row_get (columns df) job ''min_amount'' PNone)
                   (filter (salary_mask (columns df)) (rows df))"
  let ?maxs = "map (\<lambda>job. row_get (columns df) job ''max_amount'' PNone)
                   (filter (salary_mask (columns df)) (rows df))"
  have eq: "salary_summary lib df =
      (case series_mean lib ?mins of
         Inl e \<Rightarrow> Inl e
       | Inr avg_min \<Rightarrow>
           (case series_mean lib ?maxs of
              Inl e \<Rightarrow> Inl e
            | Inr avg_max \<Rightarrow>
                Inr [''Jobs with salary info: ''
                       @ str_nat (length (filter (salary_mask (columns df)) (rows df))),
                     ''Average salary range: '' @ float_format_0f lib avg_min
                       @ '' - '' @ float_format_0f lib avg_max]))"
    using assms get by (simp add: salary_summary_def Let_def)
  show ?thesis
  proof
    assume r: "salary_summary lib df = Inr extra"
    with eq obtain a where a: "series_mean lib ?mins = Inr a"
      by (cases "series_mean lib ?mins") simp_all
    with eq r obtain b where b: "series_mean lib ?maxs = Inr b"
      by (cases "series_mean lib ?maxs") simp_all
    from a obtain mins where mins: "map (as_float lib) ?mins = map Some mins" "a = float_mean lib mins"
      by (auto simp: series_mean_Inr salary_cells_notna)
    from b obtain maxs where maxs: "map (as_float lib) ?maxs = map Some maxs" "b = float_mean lib maxs"
      by (auto simp: series_mean_Inr salary_cells_notna)
    from eq r a b mins maxs show "\<exists>mins maxs. map (as_float lib) ?mins = map Some mins
        \<and> map (as_float lib) ?maxs = map Some maxs
        \<and> extra = [''Jobs with salary info: ''
                    @ str_nat (length (filter (salary_mask (columns df)) (rows df))),
                  ''Average salary range: '' @ float_format_0f lib (float_mean lib mins)
                    @ '' - '' @ float_format_0f lib (float_mean lib maxs)]"
      by auto
  next
    assume "\<exists>mins maxs. map (as_float lib) ?mins = map Some mins
        \<and> map (as_float lib) ?maxs = map Some maxs
        \<and> extra = [''Jobs with salary info: ''
                    @ str_nat (length (filter (salary_mask (columns df)) (rows df))),
                  ''Average salary range: '' @ float_format_0f lib (float_mean lib mins)
                    @ '' - '' @ float_format_0f lib (float_mean lib maxs)]"
    then obtain mins maxs where m: "map (as_float lib) ?mins = map Some mins"
        "map (as_float lib) ?maxs = map Some maxs"
        "extra = [''Jobs with salary info: ''
                    @ str_nat (length (filter (salary_mask (columns df)) (rows df))),
                  ''Average salary range: '' @ float_format_0f lib (float_mean lib mins)
                    @ '' - '' @ float_format_0f lib (float_mean lib maxs)]"
      by blast
    have a: "series_mean lib ?mins = Inr (float_mean lib mins)"
      using m(1) by (auto simp: series_mean_Inr salary_cells_notna)
    have b: "series_mean lib ?maxs = Inr (float_mean lib maxs)"
      using m(2) by (auto simp: series_mean_Inr salary_cells_notna)
    show "salary_summary lib df = Inr extra"
      by (simp only: eq a b sum.case m(3))
  qed
qed

lemma salary_summary_well_typed:
  assumes "list_all (row_well_typed (columns df)) (rows df)"
  shows "\<exists>extra. salary_summary lib df = Inr extra"
proof (cases "filter (salary_mask (columns df)) (rows df) = []")
  case True
  then show ?thesis by (simp add: salary_summary_none)
next
  case False
  let ?sj = "filter (salary_mask (columns df)) (rows df)"
  have "\<forall>v \<in> set (map (\<lambda>job. row_get (columns df) job ''min_amount'' PNone) ?sj).
          notna v \<and> \<not> is_str v"
    using assms by (auto simp: list_all_iff row_well_typed_def salary_mask_def)
  then obtain mins where mins:
    "map (as_float lib) (map (\<lambda>job. row_get (columns df) job ''min_amount'' PNone) ?sj) = map Some mins"
    using as_float_all_Some by blast
  have "\<forall>v \<in> set (map (\<lambda>job. row_get (columns df) job ''max_amount'' PNone) ?sj).
          notna v \<and> \<not> is_str v"
    using assms by (auto simp: list_all_iff row_well_typed_def salary_mask_def)
  then obtain maxs where maxs:
    "map (as_float lib) (map (\<lambda>job. row_get (columns df) job ''max_amount'' PNone) ?sj) = map Some maxs"
    using as_float_all_Some by blast
  from mins maxs show ?thesis
    unfolding salary_summary_some [OF False] by blast
qed

subsection \<open>The tool as a whole\<close>

lemma no_invalid_sites:
  "set (requested_sites rq) \<subseteq> set VALID_SITES \<Longrightarrow>
   filter (\<lambda>site. site \<notin> set VALID_SITES) (requested_sites rq) = []"
  by (auto simp: filter_empty_conv)

lemma scrape_jobs_tool_valid:
  assumes "set (requested_sites rq) \<subseteq> set VALID_SITES"
  shows "scrape_jobs_tool lib scrape_jobs rq =
           ([call_args rq],
            (case scrape_jobs (call_args rq) of
               Inl exc \<Rightarrow> Inr (''Error scraping jobs: '' @ exc)
             | Inr df \<Rightarrow> format_report lib rq (requested_sites rq) df))"
  by (simp add: scrape_jobs_tool_def Let_def no_invalid_sites [OF assms] split: sum.splits)

lemma format_report_Inr:
  assumes "\<not> df_empty df"
  shows "format_report lib rq sites df = Inr out \<longleftrightarrow>
     (\<exists>listings salary.
        listings_from lib (columns df) 1 (rows df) = Inr listings
      \<and> salary_summary lib df = Inr salary
      \<and> out = join [CHR 0x0A]
                 (summary_lines rq sites df listings
                    (length (filter (coerced_remote lib (columns df)) (rows df))) @ salary))"
  using assms by (auto simp: format_report_def remote_count_eq split: sum.splits)

lemma format_report_returns:
  assumes "\<not> df_empty df"
  shows "(\<exists>out. format_report lib rq sites df = Inr out) \<longleftrightarrow>
           list_all (row_well_typed (columns df)) (rows df)"
proof
  assume "\<exists>out. format_report lib rq sites df = Inr out"
  then obtain listings where "listings_from lib (columns df) 1 (rows df) = Inr listings"
    unfolding format_report_Inr [OF assms] by blast
  then show "list_all (row_well_typed (columns df)) (rows df)"
    using listings_from_Inr [of lib "columns df" 1 "rows df"] by blast
next
  assume wt: "list_all (row_well_typed (columns df)) (rows df)"
  then obtain listings where "listings_from lib (columns df) 1 (rows df) = Inr listings"
    using listings_from_Inr [of lib "columns df" 1 "rows df"] by blast
  moreover from wt obtain salary where "salary_summary lib df = Inr salary"
    using salary_summary_well_typed by blast
  ultimately show "\<exists>out. format_report lib rq sites df = Inr out"
    unfolding format_report_Inr [OF assms] by blast
qed

text \<open>
  Claim C7. When every requested site is valid and the collaborator returns a frame with
  no rows, the tool returns the fixed advisory string, which starts with
  \<^verbatim>\<open>No jobs found\<close>, recommends adjusting the search parameters and holds no listing;
  it is a returned value, not an error.
\<close>

theorem empty_result_advisory:
  assumes "set (requested_sites rq) \<subseteq> set VALID_SITES"
      and "scrape_jobs (call_args rq) = Inr df"
      and "rows df = []"
  shows "scrape_jobs_tool lib scrape_jobs rq =
           ([call_args rq],
            Inr ''No jobs found that match your criteria. Try adjusting your search parameters.'')"
  using assms(2,3)
  by (simp add: scrape_jobs_tool_valid [OF assms(1)] format_report_def df_empty_def NO_JOBS_def)

theorem empty_result_advisory_witness:
  "set (requested_sites (example_request None)) \<subseteq> set VALID_SITES
   \<and> rows \<lparr>columns = [], rows = []\<rparr> = ([] :: rat row list)
   \<and> snd (scrape_jobs_tool example_lib (\<lambda>_. Inr \<lparr>columns = [], rows = []\<rparr>) (example_request None))
       = Inr ''No jobs found that match your criteria. Try adjusting your search parameters.''"
proof -
  have v: "set (requested_sites (example_request None)) \<subseteq> set VALID_SITES"
    by (simp add: requested_sites_def example_request_def DEFAULT_SITES_def VALID_SITES_def)
  show ?thesis
    using v empty_result_advisory [OF v, of "\<lambda>_. Inr \<lparr>columns = [], rows = []\<rparr>"
                                     "\<lparr>columns = [], rows = []\<rparr>" example_lib]
    by simp
qed

lemma sort_iteration_order:
  assumes "distinct xs" and "distinct ys" and "set xs = set ys"
  shows "sort xs = sort ys"
proof (rule sorted_distinct_set_unique)
  show "sorted (sort xs)" by simp
  show "distinct (sort xs)" using assms(1) by simp
  show "sorted (sort ys)" by simp
  show "distinct (sort ys)" using assms(2) by simp
  show "set (sort xs) = set (sort ys)" using assms(3) by simp
qed

lemma scrape_jobs_tool_literal_order:
  "scrape_jobs_tool_in_order VALID_SITES lib scrape_jobs rq = scrape_jobs_tool lib scrape_jobs rq"
  by (simp add: scrape_jobs_tool_in_order_def scrape_jobs_tool_def)

text \<open>
  Claim C9. Two invocations with the same request and the same answer of the
  collaborator to the one call made give the same calls and the same returned string
  (or the same exception), in whichever order each of the two runs iterates over the set
  of valid sites: the order of the set, the one thing in the function that differs
  between runs, does not reach the output, because the list of valid sites in the error
  message is sorted.
\<close>

theorem scrape_jobs_tool_deterministic:
  assumes "distinct order_a" and "set order_a = set VALID_SITES"
      and "distinct order_b" and "set order_b = set VALID_SITES"
      and "scrape_a (call_args rq) = scrape_b (call_args rq)"
  shows "scrape_jobs_tool_in_order order_a lib scrape_a rq
           = scrape_jobs_tool_in_order order_b lib scrape_b rq
         \<and> scrape_jobs_tool_in_order order_a lib scrape_a rq
           = scrape_jobs_tool lib scrape_a rq"
proof -
  have any: "\<And>order scrape_jobs.
      distinct order \<Longrightarrow> set order = set VALID_SITES \<Longrightarrow>
      scrape_jobs (call_args rq) = scrape_a (call_args rq) \<Longrightarrow>
      scrape_jobs_tool_in_order order lib scrape_jobs rq = scrape_jobs_tool lib scrape_a rq"
  proof -
    fix order :: "string list" and scrape_jobs :: "'a scraper"
    assume d: "distinct order" and s: "set order = set VALID_SITES"
      and a: "scrape_jobs (call_args rq) = scrape_a (call_args rq)"
    have "distinct VALID_SITES"
      by (simp add: VALID_SITES_def)
    with d s have "sort order = sort VALID_SITES"
      by (intro sort_iteration_order)
    with s a show "scrape_jobs_tool_in_order order lib scrape_jobs rq
                     = scrape_jobs_tool lib scrape_a rq"
      by (simp add: scrape_jobs_tool_in_order_def scrape_jobs_tool_def Let_def)
  qed
  from any [of order_a scrape_a, OF assms(1,2) refl]
       any [of order_b scrape_b, OF assms(3,4) assms(5) [symmetric]]
  show ?thesis by simp
qed

theorem scrape_jobs_tool_deterministic_witness:
  "distinct VALID_SITES
   \<and> distinct (rev VALID_SITES)
   \<and> set (rev VALID_SITES) = set VALID_SITES
   \<and> rev VALID_SITES \<noteq> VALID_SITES
   \<and> example_scraper (call_args (example_request (Some [''monster''])))
       = other_scraper (call_args (example_request (Some [''monster''])))
   \<and> scrape_jobs_tool_in_order VALID_SITES example_lib example_scraper
         (example_request (Some [''monster'']))
       = scrape_jobs_tool_in_order (rev VALID_SITES) example_lib other_scraper
           (example_request (Some [''monster'']))
   \<and> scrape_jobs_tool_in_order VALID_SITES example_lib example_scraper
         (example_request (Some [''indeed'']))
       = scrape_jobs_tool_in_order (rev VALID_SITES) example_lib other_scraper
           (example_request (Some [''indeed'']))"
proof -
  have d1: "distinct VALID_SITES"
    by (simp add: VALID_SITES_def)
  have d2: "distinct (rev VALID_SITES)"
    using d1 by simp
  have s2: "set (rev VALID_SITES) = set VALID_SITES"
    by simp
  have ne: "rev VALID_SITES \<noteq> VALID_SITES"
    by (simp add: VALID_SITES_def)
  have c: "\<And>rq. example_scraper (call_args rq) = other_scraper (call_args rq)"
    by (simp add: example_scraper_def other_scraper_def call_args_def)
  from d1 d2 s2 ne c
    scrape_jobs_tool_deterministic
      [where order_a = VALID_SITES and order_b = "rev VALID_SITES"
         and scrape_a = example_scraper and scrape_b = other_scraper
         and lib = example_lib and rq = "example_request (Some [''monster''])"]
    scrape_jobs_tool_deterministic
      [where order_a = VALID_SITES and order_b = "rev VALID_SITES"
         and scrape_a = example_scraper and scrape_b = other_scraper
         and lib = example_lib and rq = "example_request (Some [''indeed''])"]
  show ?thesis by blast
qed

subsection \<open>The example frame, evaluated\<close>

lemma example_sites_valid:
  "set (requested_sites (example_request (Some [''indeed'']))) \<subseteq> set VALID_SITES"
  by (simp add: requested_sites_def example_request_def VALID_SITES_def)

lemma example_titles:
  "ascii_title ''indeed'' = ''Indeed''"
  "ascii_title ''zip_recruiter'' = ''Zip_Recruiter''"
  by code_simp+

lemma example_formats:
  "format_rounded 85000 = ''85,000''"
  "format_rounded 120000 = ''120,000''"
  by (simp_all add: format_rounded_def round_half_even_def Let_def)

lemma example_listings:
  "listings_from example_lib (columns example_frame) 1 (rows example_frame) =
     Inr [''1. Python Developer\<newline>Company: Acme\<newline>Location: Austin, TX\<newline>Source: Indeed\<newline>Salary: 85,000 - 120,000 USD (yearly)\<newline>Remote work available\<newline>Description: Build services.'',
          ''2. Backend Engineer\<newline>Company: Initech\<newline>Location: Remote\<newline>Source: Zip_Recruiter'']"
  by (simp add: example_frame_def listing_parts_def source_line_def salary_lines_def
      remote_lines_def mandatory_lines_def optional_line_def description_lines_def
      rating_lines_def row_get_def example_lib_def example_titles example_formats
      trim_description_def Let_def)

lemma example_salary:
  "salary_summary example_lib example_frame =
     Inr [''Jobs with salary info: 1'', ''Average salary range: 85,000 - 120,000'']"
  by (simp add: example_frame_def salary_summary_def df_get_def salary_mask_def row_get_def
      series_mean_def example_lib_def example_formats Let_def)

lemma example_remote:
  "length (filter (coerced_remote example_lib (columns example_frame)) (rows example_frame)) = 1"
  by (simp add: example_frame_def coerced_remote_def row_get_def Let_def)

lemma example_not_empty: "\<not> df_empty example_frame"
  by (simp add: df_empty_def example_frame_def)

lemma example_report:
  "snd (scrape_jobs_tool example_lib example_scraper (example_request (Some [''indeed''])))
     = Inr example_output"
proof -
  have r: "remote_count example_lib example_frame = Inr 1"
    by (simp only: remote_count_eq example_remote)
  have n: "length (rows example_frame) = 2"
    by (simp add: example_frame_def)
  have s: "requested_sites (example_request (Some [''indeed''])) = [''indeed'']"
    by (simp add: requested_sites_def example_request_def)
  have h: "results_summary (example_request (Some [''indeed''])) example_frame
             = ''Found 2 jobs for 'python developer'' @ [CHR 0x27]"
    by (simp add: results_summary_def n example_request_def)
  have t: "snd (scrape_jobs_tool example_lib example_scraper
                  (example_request (Some [''indeed''])))
             = format_report example_lib (example_request (Some [''indeed''])) [''indeed'']
                 example_frame"
    by (simp add: scrape_jobs_tool_valid [OF example_sites_valid] s example_scraper_def)
  show ?thesis
    by (simp del: One_nat_def add: t format_report_def example_not_empty example_listings r
        example_salary example_output_def
        summary_lines_def h n)
qed

subsection \<open>When the tool returns a string\<close>

lemma row_well_typed_split:
  "list_all (remote_flag_testable cols) jobs \<Longrightarrow>
   list_all (row_well_typed cols) jobs \<longleftrightarrow> list_all (row_formattable cols) jobs"
  by (auto simp: list_all_iff row_well_typed_def row_formattable_def remote_flag_testable_def)

text \<open>
  Claim C1, amended. The tool returns a string on every failure path of validation,
  scraping and empty results, and the three are told apart by their beginnings:
  \<^verbatim>\<open>Error: invalid site names\<close>, \<^verbatim>\<open>Error scraping jobs: \<close> followed by the reason,
  and \<^verbatim>\<open>No jobs found\<close>. The formatting of a frame that is not empty runs outside the
  \<^verbatim>\<open>try\<close> block: when no remote flag is \<^verbatim>\<open>pandas.NA\<close>, the tool returns a string
  exactly when in every row the site cell is a \<^verbatim>\<open>str\<close> (or there is no site column)
  and the salary bounds are not \<^verbatim>\<open>str\<close> when both are non-null; otherwise the
  exception of the formatting code leaves the function.
\<close>

theorem scrape_jobs_tool_returns:
  "((\<exists>site \<in> set (requested_sites rq). site \<notin> set VALID_SITES) \<longrightarrow>
      (\<exists>rest. snd (scrape_jobs_tool lib scrape_jobs rq)
                 = Inr (''Error: invalid site names'' @ rest)))
   \<and> (set (requested_sites rq) \<subseteq> set VALID_SITES \<longrightarrow>
        (case scrape_jobs (call_args rq) of
           Inl exc \<Rightarrow>
             snd (scrape_jobs_tool lib scrape_jobs rq) = Inr (''Error scraping jobs: '' @ exc)
         | Inr df \<Rightarrow>
             if df_empty df
             then \<exists>rest. snd (scrape_jobs_tool lib scrape_jobs rq)
                          = Inr (''No jobs found'' @ rest)
             else list_all (remote_flag_testable (columns df)) (rows df) \<longrightarrow>
                    ((\<exists>out. snd (scrape_jobs_tool lib scrape_jobs rq) = Inr out)
                       \<longleftrightarrow> list_all (row_formattable (columns df)) (rows df))))"
proof (intro conjI impI)
  assume "\<exists>site \<in> set (requested_sites rq). site \<notin> set VALID_SITES"
  then have "filter (\<lambda>site. site \<notin> set VALID_SITES) (requested_sites rq) \<noteq> []"
    by (simp add: filter_empty_conv)
  then show "\<exists>rest. snd (scrape_jobs_tool lib scrape_jobs rq)
                      = Inr (''Error: invalid site names'' @ rest)"
    by (simp add: scrape_jobs_tool_def Let_def)
next
  assume valid: "set (requested_sites rq) \<subseteq> set VALID_SITES"
  show "case scrape_jobs (call_args rq) of
          Inl exc \<Rightarrow>
            snd (scrape_jobs_tool lib scrape_jobs rq) = Inr (''Error scraping jobs: '' @ exc)
        | Inr df \<Rightarrow>
            if df_empty df
            then \<exists>rest. snd (scrape_jobs_tool lib scrape_jobs rq)
                         = Inr (''No jobs found'' @ rest)
            else list_all (remote_flag_testable (columns df)) (rows df) \<longrightarrow>
                   ((\<exists>out. snd (scrape_jobs_tool lib scrape_jobs rq) = Inr out)
                      \<longleftrightarrow> list_all (row_formattable (columns df)) (rows df))"
  proof (cases "scrape_jobs (call_args rq)")
    case (Inl exc)
    then show ?thesis
      by (simp add: scrape_jobs_tool_valid [OF valid])
  next
    case (Inr df)
    show ?thesis
    proof (cases "df_empty df")
      case True
      with Inr show ?thesis
        by (simp add: scrape_jobs_tool_valid [OF valid] format_report_def NO_JOBS_def)
    next
      case False
      have "list_all (remote_flag_testable (columns df)) (rows df) \<longrightarrow>
              ((\<exists>out. format_report lib rq (requested_sites rq) df = Inr out)
                 \<longleftrightarrow> list_all (row_formattable (columns df)) (rows df))"
        using format_report_returns [OF False, of lib rq "requested_sites rq"]
              row_well_typed_split [of "columns df" "rows df"]
        by blast
      with Inr False show ?thesis
        by (simp add: scrape_jobs_tool_valid [OF valid])
    qed
  qed
qed

theorem scrape_jobs_tool_returns_witness:
  "(\<exists>site \<in> set (requested_sites (example_request (Some [''monster'']))).
       site \<notin> set VALID_SITES)
   \<and> (\<exists>rest. snd (scrape_jobs_tool example_lib example_scraper
                      (example_request (Some [''monster''])))
                = Inr (''Error: invalid site names'' @ rest))
   \<and> set (requested_sites (example_request (Some [''indeed'']))) \<subseteq> set VALID_SITES
   \<and> snd (scrape_jobs_tool example_lib failing_scraper (example_request (Some [''indeed''])))
       = Inr ''Error scraping jobs: timed out''
   \<and> (\<exists>rest. snd (scrape_jobs_tool example_lib empty_scraper
                      (example_request (Some [''indeed''])))
                = Inr (''No jobs found'' @ rest))
   \<and> \<not> df_empty example_frame
   \<and> list_all (remote_flag_testable (columns example_frame)) (rows example_frame)
   \<and> list_all (row_formattable (columns example_frame)) (rows example_frame)
   \<and> (\<exists>out. snd (scrape_jobs_tool example_lib example_scraper
                     (example_request (Some [''indeed''])))
               = Inr out)"
proof -
  have bad: "\<exists>site \<in> set (requested_sites (example_request (Some [''monster'']))).
                site \<notin> set VALID_SITES"
    by (simp add: requested_sites_def example_request_def VALID_SITES_def)
  have rf: "list_all (remote_flag_testable (columns example_frame)) (rows example_frame)"
    by (simp add: example_frame_def remote_flag_testable_def row_get_def)
  have wt: "list_all (row_formattable (columns example_frame)) (rows example_frame)"
    by (simp add: example_frame_def row_formattable_def salary_mask_def row_get_def)
  show ?thesis
    using bad rf wt example_sites_valid example_not_empty
      scrape_jobs_tool_returns [of "example_request (Some [''monster''])" example_lib
                                   example_scraper]
      scrape_jobs_tool_returns [of "example_request (Some [''indeed''])" example_lib
                                   failing_scraper]
      scrape_jobs_tool_returns [of "example_request (Some [''indeed''])" example_lib
                                   empty_scraper]
      scrape_jobs_tool_returns [of "example_request (Some [''indeed''])" example_lib
                                   example_scraper]
    by (simp add: example_scraper_def failing_scraper_def empty_scraper_def df_empty_def)
qed

text \<open>
  The claim as stated fails: when the collaborator returns a row whose site cell is
  \<^verbatim>\<open>None\<close>, the call \<^verbatim>\<open>job.get('site', 'N/A').title()\<close> raises
  \<^verbatim>\<open>AttributeError\<close>, and the exception reaches the caller.
\<close>

theorem scrape_jobs_tool_raises:
  "snd (scrape_jobs_tool example_lib null_site_scraper (example_request (Some [''indeed''])))
     = Inl AttributeError"
  by (simp add: scrape_jobs_tool_valid [OF example_sites_valid] format_report_def df_empty_def
      listing_parts_def source_line_def row_get_def null_site_scraper_def null_site_frame_def)

subsection \<open>Listing blocks\<close>

lemma shown_default:
  "py_str lib (row_get cols job key (PStr ''N/A'')) = shown lib cols job key"
  by (simp add: shown_def row_get_def)

lemma listing_parts_Inr_parts:
  assumes "listing_parts lib cols index job = Inr parts"
  shows "\<exists>src rest. source_line lib cols job = Inr src
                   \<and> parts = mandatory_lines lib cols index job @ [src] @ rest"
proof -
  obtain src where src: "source_line lib cols job = Inr src"
    using assms by (cases "source_line lib cols job") (simp_all add: listing_parts_def)
  obtain salary where sal: "salary_lines lib cols job = Inr salary"
    using assms src by (cases "salary_lines lib cols job") (simp_all add: listing_parts_def)
  obtain remote where rem: "remote_lines lib cols job = Inr remote"
    using assms src sal by (cases "remote_lines lib cols job") (simp_all add: listing_parts_def)
  from assms src sal rem show ?thesis
    by (auto simp: listing_parts_def)
qed

lemma source_line_site:
  assumes "source_line lib cols job = Inr src"
  shows "\<exists>site. row_get cols job ''site'' (PStr ''N/A'') = PStr site
               \<and> src = ''Source: '' @ str_title lib site"
  using assms
  by (cases "row_get cols job ''site'' (PStr ''N/A'')") (simp_all add: source_line_def)

lemma listing_parts_shape:
  assumes "listing_parts lib cols index job = Inr parts"
  shows "\<exists>site rest.
           row_get cols job ''site'' (PStr ''N/A'') = PStr site
         \<and> parts = [str_nat index @ ''. '' @ shown lib cols job ''title'',
                    ''Company: '' @ shown lib cols job ''company'',
                    ''Location: '' @ shown lib cols job ''location'',
                    ''Source: '' @ str_title lib site] @ rest"
proof -
  from listing_parts_Inr_parts [OF assms] obtain src rest
    where src: "source_line lib cols job = Inr src"
      and parts: "parts = mandatory_lines lib cols index job @ [src] @ rest"
    by blast
  from source_line_site [OF src] obtain site
    where site: "row_get cols job ''site'' (PStr ''N/A'') = PStr site"
      and s: "src = ''Source: '' @ str_title lib site"
    by blast
  have "parts = [str_nat index @ ''. '' @ shown lib cols job ''title'',
                 ''Company: '' @ shown lib cols job ''company'',
                 ''Location: '' @ shown lib cols job ''location'',
                 ''Source: '' @ str_title lib site] @ rest"
    by (simp add: parts s mandatory_lines_def shown_default)
  with site show ?thesis by blast
qed

lemma join_Cons: "\<exists>rest. join sep (x # xs) = x @ rest"
  by (cases xs) simp_all

lemma listing_block_prefix:
  assumes "listing_parts lib cols index job = Inr parts"
  shows "\<exists>rest. join sep parts = str_nat index @ ''. '' @ rest"
proof -
  from listing_parts_shape [OF assms] obtain site tail
    where "parts = [str_nat index @ ''. '' @ shown lib cols job ''title'',
                    ''Company: '' @ shown lib cols job ''company'',
                    ''Location: '' @ shown lib cols job ''location'',
                    ''Source: '' @ str_title lib site] @ tail"
    by blast
  then obtain xs where parts: "parts = (str_nat index @ ''. '' @ shown lib cols job ''title'') # xs"
    by simp
  from join_Cons [of sep "str_nat index @ ''. '' @ shown lib cols job ''title''" xs] obtain rest
    where "join sep parts = (str_nat index @ ''. '' @ shown lib cols job ''title'') @ rest"
    unfolding parts by blast
  then have "join sep parts = str_nat index @ ''. '' @ (shown lib cols job ''title'' @ rest)"
    by (simp only: append_assoc)
  then show ?thesis by blast
qed

lemma listings_from_nth:
  "listings_from lib cols k jobs = Inr ls \<Longrightarrow>
   length ls = length jobs
   \<and> (\<forall>i < length jobs. \<exists>parts.
          listing_parts lib cols (k + i) (jobs ! i) = Inr parts
        \<and> ls ! i = join [CHR 0x0A] parts)"
proof (induction jobs arbitrary: k ls)
  case Nil
  then show ?case by simp
next
  case (Cons job jobs)
  obtain parts where p: "listing_parts lib cols k job = Inr parts"
    using Cons.prems by (cases "listing_parts lib cols k job") simp_all
  obtain ls' where r: "listings_from lib cols (Suc k) jobs = Inr ls'"
    using Cons.prems p by (cases "listings_from lib cols (Suc k) jobs") simp_all
  from Cons.prems p r have ls: "ls = join [CHR 0x0A] parts # ls'"
    by simp
  from Cons.IH [OF r] have len: "length ls' = length jobs"
    and nth: "\<And>i. i < length jobs \<Longrightarrow> \<exists>parts.
                 listing_parts lib cols (Suc k + i) (jobs ! i) = Inr parts
               \<and> ls' ! i = join [CHR 0x0A] parts"
    by blast+
  show ?case
  proof (intro conjI allI impI)
    show "length ls = length (job # jobs)" using ls len by simp
  next
    fix i assume i: "i < length (job # jobs)"
    show "\<exists>parts. listing_parts lib cols (k + i) ((job # jobs) ! i) = Inr parts
                 \<and> ls ! i = join [CHR 0x0A] parts"
    proof (cases i)
      case 0
      with p ls show ?thesis by simp
    next
      case (Suc j)
      with i have "j < length jobs" by simp
      from nth [OF this] Suc ls show ?thesis by simp
    qed
  qed
qed

lemma tool_report_shape:
  assumes "set (requested_sites rq) \<subseteq> set VALID_SITES"
      and "scrape_jobs (call_args rq) = Inr df"
      and "\<not> df_empty df"
      and "snd (scrape_jobs_tool lib scrape_jobs rq) = Inr out"
  shows "\<exists>listings salary.
        listings_from lib (columns df) 1 (rows df) = Inr listings
      \<and> salary_summary lib df = Inr salary
      \<and> out = join [CHR 0x0A]
                 (summary_lines rq (requested_sites rq) df listings
                    (length (filter (coerced_remote lib (columns df)) (rows df))) @ salary)"
proof -
  from assms(2,4) have "format_report lib rq (requested_sites rq) df = Inr out"
    by (simp add: scrape_jobs_tool_valid [OF assms(1)])
  then show ?thesis
    unfolding format_report_Inr [OF assms(3)] .
qed

subsection \<open>The assembled report\<close>

lemma example_call: "example_scraper (call_args (example_request (Some [''indeed'']))) = Inr example_frame"
  by (simp add: example_scraper_def)

text \<open>
  Claim C6. For a frame that is not empty, the returned string is built from as many
  listing blocks as the frame has rows; block \<open>i\<close> (counted from 0) is the listing of row
  \<open>i\<close> formatted with the display index \<open>i + 1\<close>, and it begins with that index and a
  full stop; the blocks are joined in this order by the separator line.
\<close>

theorem listing_blocks_in_order:
  assumes "set (requested_sites rq) \<subseteq> set VALID_SITES"
      and "scrape_jobs (call_args rq) = Inr df"
      and "\<not> df_empty df"
      and "snd (scrape_jobs_tool lib scrape_jobs rq) = Inr out"
  shows "\<exists>blocks salary.
        out = join [CHR 0x0A]
                (summary_lines rq (requested_sites rq) df blocks
                   (length (filter (coerced_remote lib (columns df)) (rows df))) @ salary)
      \<and> summary_lines rq (requested_sites rq) df blocks
            (length (filter (coerced_remote lib (columns df)) (rows df))) ! 2
          = join ([CHR 0x0A] @ ''---'' @ [CHR 0x0A]) blocks
      \<and> length blocks = length (rows df)
      \<and> (\<forall>i < length (rows df). \<exists>parts rest.
            listing_parts lib (columns df) (Suc i) (rows df ! i) = Inr parts
          \<and> blocks ! i = join [CHR 0x0A] parts
          \<and> blocks ! i = str_nat (Suc i) @ ''. '' @ rest)"
proof -
  from tool_report_shape [OF assms] obtain blocks salary
    where ls: "listings_from lib (columns df) 1 (rows df) = Inr blocks"
      and out: "out = join [CHR 0x0A]
                 (summary_lines rq (requested_sites rq) df blocks
                    (length (filter (coerced_remote lib (columns df)) (rows df))) @ salary)"
    by blast
  from listings_from_nth [OF ls] have len: "length blocks = length (rows df)"
    and nth: "\<And>i. i < length (rows df) \<Longrightarrow> \<exists>parts.
                 listing_parts lib (columns df) (1 + i) (rows df ! i) = Inr parts
               \<and> blocks ! i = join [CHR 0x0A] parts"
    by blast+
  have each: "\<forall>i < length (rows df). \<exists>parts rest.
            listing_parts lib (columns df) (Suc i) (rows df ! i) = Inr parts
          \<and> blocks ! i = join [CHR 0x0A] parts
          \<and> blocks ! i = str_nat (Suc i) @ ''. '' @ rest"
  proof (intro allI impI)
    fix i assume "i < length (rows df)"
    from nth [OF this] obtain parts
      where p: "listing_parts lib (columns df) (Suc i) (rows df ! i) = Inr parts"
        and b: "blocks ! i = join [CHR 0x0A] parts"
      by auto
    from listing_block_prefix [OF p, of "[CHR 0x0A]"] obtain rest
      where "join [CHR 0x0A] parts = str_nat (Suc i) @ ''. '' @ rest"
      by blast
    with p b show "\<exists>parts rest.
            listing_parts lib (columns df) (Suc i) (rows df ! i) = Inr parts
          \<and> blocks ! i = join [CHR 0x0A] parts
          \<and> blocks ! i = str_nat (Suc i) @ ''. '' @ rest"
      by (metis (no_types))
  qed
  have third: "summary_lines rq (requested_sites rq) df blocks
            (length (filter (coerced_remote lib (columns df)) (rows df))) ! 2
          = join ([CHR 0x0A] @ ''---'' @ [CHR 0x0A]) blocks"
    by (simp add: summary_lines_def numeral_2_eq_2)
  from out third len each show ?thesis by blast
qed

theorem listing_blocks_in_order_witness:
  "set (requested_sites (example_request (Some [''indeed'']))) \<subseteq> set VALID_SITES
   \<and> example_scraper (call_args (example_request (Some [''indeed'']))) = Inr example_frame
   \<and> \<not> df_empty example_frame
   \<and> snd (scrape_jobs_tool example_lib example_scraper (example_request (Some [''indeed''])))
       = Inr example_output
   \<and> (\<exists>blocks salary.
        example_output = join [CHR 0x0A]
                (summary_lines (example_request (Some [''indeed'']))
                   (requested_sites (example_request (Some [''indeed''])))
                   example_frame blocks
                   (length (filter (coerced_remote example_lib (columns example_frame))
                              (rows example_frame))) @ salary)
      \<and> length blocks = length (rows example_frame)
      \<and> (\<forall>i < length (rows example_frame). \<exists>parts rest.
            listing_parts example_lib (columns example_frame) (Suc i) (rows example_frame ! i)
              = Inr parts
          \<and> blocks ! i = join [CHR 0x0A] parts
          \<and> blocks ! i = str_nat (Suc i) @ ''. '' @ rest))"
  using example_sites_valid example_call example_not_empty example_report
    listing_blocks_in_order [OF example_sites_valid example_call example_not_empty example_report]
  by blast

text \<open>
  Claim C8. For a frame that is not empty, the returned string is the lines, joined by
  newlines: the header with the number of rows and the search term, followed by the
  location when one is given; an empty line; the listing blocks joined by the line
  \<^verbatim>\<open>---\<close>; an empty line; \<^verbatim>\<open>Search Summary\<close>; the total; the requested sites joined
  by a comma in the order of the request; the number of rows whose remote flag coerces
  to true, a flag that is not present counting as false; and then either nothing or the
  two lines of the salary statistics.
\<close>

theorem report_assembly:
  assumes "set (requested_sites rq) \<subseteq> set VALID_SITES"
      and "scrape_jobs (call_args rq) = Inr df"
      and "\<not> df_empty df"
      and "snd (scrape_jobs_tool lib scrape_jobs rq) = Inr out"
  shows "\<exists>blocks salary.
        listings_from lib (columns df) 1 (rows df) = Inr blocks
      \<and> salary_summary lib df = Inr salary
      \<and> (salary = []
         \<or> (\<exists>averages. salary =
               [''Jobs with salary info: ''
                  @ str_nat (length (filter (salary_mask (columns df)) (rows df))),
                ''Average salary range: '' @ averages]))
      \<and> out = join [CHR 0x0A]
          ([''Found '' @ str_nat (length (rows df)) @ '' jobs for ''
              @ [CHR 0x27] @ search_term rq @ [CHR 0x27]
              @ (case location rq of
                   Some loc \<Rightarrow> if loc \<noteq> [] then '' in '' @ loc else []
                 | None \<Rightarrow> []),
            '''',
            join ([CHR 0x0A] @ ''---'' @ [CHR 0x0A]) blocks,
            '''',
            ''Search Summary'',
            ''Total jobs found: '' @ str_nat (length (rows df)),
            ''Sites searched: '' @ join '', '' (requested_sites rq),
            ''Remote jobs: ''
              @ str_nat (length (filter (coerced_remote lib (columns df)) (rows df)))]
           @ salary)"
proof -
  from tool_report_shape [OF assms] obtain blocks salary
    where ls: "listings_from lib (columns df) 1 (rows df) = Inr blocks"
      and sal: "salary_summary lib df = Inr salary"
      and out: "out = join [CHR 0x0A]
                 (summary_lines rq (requested_sites rq) df blocks
                    (length (filter (coerced_remote lib (columns df)) (rows df))) @ salary)"
    by blast
  have two: "salary = []
         \<or> (\<exists>averages. salary =
               [''Jobs with salary info: ''
                  @ str_nat (length (filter (salary_mask (columns df)) (rows df))),
                ''Average salary range: '' @ averages])"
  proof (cases "filter (salary_mask (columns df)) (rows df) = []")
    case True
    with sal show ?thesis by (simp add: salary_summary_none)
  next
    case False
    from sal show ?thesis
      unfolding salary_summary_some [OF False] by blast
  qed
  from out have "out = join [CHR 0x0A]
          ([''Found '' @ str_nat (length (rows df)) @ '' jobs for ''
              @ [CHR 0x27] @ search_term rq @ [CHR 0x27]
              @ (case location rq of
                   Some loc \<Rightarrow> if loc \<noteq> [] then '' in '' @ loc else []
                 | None \<Rightarrow> []),
            '''',
            join ([CHR 0x0A] @ ''---'' @ [CHR 0x0A]) blocks,
            '''',
            ''Search Summary'',
            ''Total jobs found: '' @ str_nat (length (rows df)),
            ''Sites searched: '' @ join '', '' (requested_sites rq),
            ''Remote jobs: ''
              @ str_nat (length (filter (coerced_remote lib (columns df)) (rows df)))]
           @ salary)"
    by (simp only: summary_lines_def results_summary_def)
  with ls sal two show ?thesis by blast
qed

theorem report_assembly_witness:
  "set (requested_sites (example_request (Some [''indeed'']))) \<subseteq> set VALID_SITES
   \<and> example_scraper (call_args (example_request (Some [''indeed'']))) = Inr example_frame
   \<and> \<not> df_empty example_frame
   \<and> snd (scrape_jobs_tool example_lib example_scraper (example_request (Some [''indeed''])))
       = Inr example_output
   \<and> (\<exists>blocks salary.
        listings_from example_lib (columns example_frame) 1 (rows example_frame) = Inr blocks
      \<and> salary_summary example_lib example_frame = Inr salary
      \<and> example_output = join [CHR 0x0A]
          ([''Found '' @ str_nat (length (rows example_frame)) @ '' jobs for ''
              @ [CHR 0x27] @ search_term (example_request (Some [''indeed''])) @ [CHR 0x27]
              @ (case location (example_request (Some [''indeed''])) of
                   Some loc \<Rightarrow> if loc \<noteq> [] then '' in '' @ loc else []
                 | None \<Rightarrow> []),
            '''',
            join ([CHR 0x0A] @ ''---'' @ [CHR 0x0A]) blocks,
            '''',
            ''Search Summary'',
            ''Total jobs found: '' @ str_nat (length (rows example_frame)),
            ''Sites searched: ''
              @ join '', '' (requested_sites (example_request (Some [''indeed'']))),
            ''Remote jobs: ''
              @ str_nat (length (filter (coerced_remote example_lib (columns example_frame))
                                   (rows example_frame)))]
           @ salary))"
  using example_sites_valid example_call example_not_empty example_report
    report_assembly [OF example_sites_valid example_call example_not_empty example_report]
  by blast


lemma nan_remote_not_empty: "\<not> df_empty nan_remote_frame"
  by (simp add: df_empty_def nan_remote_frame_def)

lemma nan_remote_listing:
  "listing_parts example_lib [''site'', ''title'', ''is_remote''] 1
     [(''site'', PStr ''indeed''), (''title'', PStr ''Python Developer''), (''is_remote'', PNaN)]
   = Inr [''1. Python Developer'', ''Company: N/A'', ''Location: N/A'', ''Source: Indeed'',
          ''Remote work available'']"
  by (simp add: listing_parts_def source_line_def salary_lines_def
      remote_lines_def mandatory_lines_def optional_line_def description_lines_def
      rating_lines_def row_get_def example_lib_def example_titles Let_def)

lemma nan_remote_count:
  "length (filter (coerced_remote example_lib (columns nan_remote_frame)) (rows nan_remote_frame)) = 0"
  by (simp add: nan_remote_frame_def coerced_remote_def row_get_def Let_def)

lemma nan_remote_no_salary:
  "filter (salary_mask (columns nan_remote_frame)) (rows nan_remote_frame) = []"
  by (simp add: nan_remote_frame_def salary_mask_def row_get_def)

lemma nan_remote_report:
  "snd (scrape_jobs_tool example_lib nan_remote_scraper (example_request (Some [''indeed''])))
     = Inr nan_remote_output"
proof -
  have r: "remote_count example_lib nan_remote_frame = Inr 0"
    by (simp only: remote_count_eq nan_remote_count)
  have l: "listings_from example_lib (columns nan_remote_frame) 1 (rows nan_remote_frame)
             = Inr [''1. Python Developer\<newline>Company: N/A\<newline>Location: N/A\<newline>Source: Indeed\<newline>Remote work available'']"
    by (simp del: One_nat_def add: nan_remote_frame_def nan_remote_listing)
  have n: "length (rows nan_remote_frame) = 1"
    by (simp add: nan_remote_frame_def)
  have s: "requested_sites (example_request (Some [''indeed''])) = [''indeed'']"
    by (simp add: requested_sites_def example_request_def)
  have h: "results_summary (example_request (Some [''indeed''])) nan_remote_frame
             = ''Found 1 jobs for 'python developer'' @ [CHR 0x27]"
    by (simp add: results_summary_def n example_request_def)
  have t: "snd (scrape_jobs_tool example_lib nan_remote_scraper
                  (example_request (Some [''indeed''])))
             = format_report example_lib (example_request (Some [''indeed''])) [''indeed'']
                 nan_remote_frame"
    by (simp add: scrape_jobs_tool_valid [OF example_sites_valid] s nan_remote_scraper_def)
  show ?thesis
    by (simp del: One_nat_def add: t format_report_def nan_remote_not_empty l r
        salary_summary_none [OF nan_remote_no_salary] nan_remote_output_def
        summary_lines_def h n)
qed

















subsection \<open>The lines of one listing\<close>

lemma example_title_na: "ascii_title ''N/A'' = ''N/A''"
  by code_simp

text \<open>
  Claim C10, amended. The lines for title, company and location show the cell of their
  column, or the placeholder \<^verbatim>\<open>N/A\<close> when the frame has no such column. The source
  line is produced exactly when the site cell is a \<^verbatim>\<open>str\<close> or the frame has no site
  column; it shows the site title-cased, and the title-cased placeholder without the
  column. Every listing that is produced starts with these four lines, in the order
  indexed title, company, location, source, and a listing is produced for every row that
  is well typed. When the site column is there and the cell is not a \<^verbatim>\<open>str\<close>, the
  call of \<^verbatim>\<open>.title()\<close> raises and the row gets no listing.
\<close>

theorem mandatory_lines_emitted:
  "((\<exists>line. source_line lib cols job = Inr line)
      \<longleftrightarrow> is_str (row_get cols job ''site'' (PStr ''N/A'')))
   \<and> (\<not> is_str (row_get cols job ''site'' (PStr ''N/A'')) \<longrightarrow>
        listing_parts lib cols index job = Inl AttributeError)
   \<and> (row_well_typed cols job \<longrightarrow>
        (\<exists>site rest.
           row_get cols job ''site'' (PStr ''N/A'') = PStr site
         \<and> listing_parts lib cols index job =
             Inr ([str_nat index @ ''. '' @ shown lib cols job ''title'',
                   ''Company: '' @ shown lib cols job ''company'',
                   ''Location: '' @ shown lib cols job ''location'',
                   ''Source: '' @ str_title lib site] @ rest)))
   \<and> (listing_parts lib cols index job = Inr parts \<longrightarrow>
        (\<exists>site rest.
           row_get cols job ''site'' (PStr ''N/A'') = PStr site
         \<and> parts = [str_nat index @ ''. '' @ shown lib cols job ''title'',
                    ''Company: '' @ shown lib cols job ''company'',
                    ''Location: '' @ shown lib cols job ''location'',
                    ''Source: '' @ str_title lib site] @ rest))
   \<and> (key \<notin> set cols \<longrightarrow> shown lib cols job key = ''N/A'')
   \<and> (''site'' \<notin> set cols \<longrightarrow>
        source_line lib cols job = Inr (''Source: '' @ str_title lib ''N/A''))"
proof (intro conjI impI)
  show "(\<exists>line. source_line lib cols job = Inr line)
          \<longleftrightarrow> is_str (row_get cols job ''site'' (PStr ''N/A''))"
    by (rule source_line_Inr)
next
  assume "\<not> is_str (row_get cols job ''site'' (PStr ''N/A''))"
  then have "source_line lib cols job = Inl AttributeError"
    by (cases "row_get cols job ''site'' (PStr ''N/A'')") (simp_all add: source_line_def)
  then show "listing_parts lib cols index job = Inl AttributeError"
    by (simp add: listing_parts_def)
next
  assume "row_well_typed cols job"
  then obtain parts where parts: "listing_parts lib cols index job = Inr parts"
    using listing_parts_Inr [of lib cols index job] by blast
  from listing_parts_shape [OF parts] parts
  show "\<exists>site rest.
           row_get cols job ''site'' (PStr ''N/A'') = PStr site
         \<and> listing_parts lib cols index job =
             Inr ([str_nat index @ ''. '' @ shown lib cols job ''title'',
                   ''Company: '' @ shown lib cols job ''company'',
                   ''Location: '' @ shown lib cols job ''location'',
                   ''Source: '' @ str_title lib site] @ rest)"
    by metis
next
  assume "listing_parts lib cols index job = Inr parts"
  then show "\<exists>site rest.
           row_get cols job ''site'' (PStr ''N/A'') = PStr site
         \<and> parts = [str_nat index @ ''. '' @ shown lib cols job ''title'',
                    ''Company: '' @ shown lib cols job ''company'',
                    ''Location: '' @ shown lib cols job ''location'',
                    ''Source: '' @ str_title lib site] @ rest"
    by (rule listing_parts_shape)
next
  assume "key \<notin> set cols"
  then show "shown lib cols job key = ''N/A''"
    by (simp add: shown_def)
next
  assume "''site'' \<notin> set cols"
  then show "source_line lib cols job = Inr (''Source: '' @ str_title lib ''N/A'')"
    by (simp add: source_line_def row_get_absent)
qed

theorem mandatory_lines_emitted_witness:
  "row_well_typed [''site'', ''title'', ''is_remote'']
     [(''site'', PStr ''indeed''), (''title'', PStr ''Python Developer''),
      (''is_remote'', (PNaN :: rat pyval))]
   \<and> listing_parts example_lib [''site'', ''title'', ''is_remote''] 1
       [(''site'', PStr ''indeed''), (''title'', PStr ''Python Developer''), (''is_remote'', PNaN)]
     = Inr [''1. Python Developer'', ''Company: N/A'', ''Location: N/A'', ''Source: Indeed'',
            ''Remote work available'']
   \<and> ''company'' \<notin> set [''site'', ''title'', ''is_remote'']
   \<and> shown example_lib [''site'', ''title'', ''is_remote'']
         [(''site'', PStr ''indeed''), (''title'', PStr ''Python Developer''),
          (''is_remote'', PNaN)] ''company'' = ''N/A''
   \<and> ''site'' \<notin> set [''title'']
   \<and> source_line example_lib [''title''] [(''title'', PStr ''Python Developer'')]
       = Inr ''Source: N/A''
   \<and> \<not> is_str (row_get [''site'', ''title'']
                  [(''site'', PNone), (''title'', PStr ''Python Developer'')]
                  ''site'' (PStr ''N/A'' :: rat pyval))
   \<and> listing_parts example_lib [''site'', ''title''] 1
         [(''site'', PNone), (''title'', PStr ''Python Developer'')]
       = Inl AttributeError"
proof -
  have w: "row_well_typed [''site'', ''title'', ''is_remote'']
             [(''site'', PStr ''indeed''), (''title'', PStr ''Python Developer''),
              (''is_remote'', (PNaN :: rat pyval))]"
    by (simp add: row_well_typed_def salary_mask_def row_get_def)
  have c: "''company'' \<notin> set [''site'', ''title'', ''is_remote'']" by simp
  have s: "''site'' \<notin> set [''title'']" by simp
  have n: "\<not> is_str (row_get [''site'', ''title'']
                  [(''site'', PNone), (''title'', PStr ''Python Developer'')]
                  ''site'' (PStr ''N/A'' :: rat pyval))"
    by (simp add: row_get_def)
  have t: "str_title example_lib ''N/A'' = ''N/A''"
    by (simp add: example_lib_def example_title_na)
  show ?thesis
    using nan_remote_listing w c s n
      mandatory_lines_emitted [of example_lib "[''site'', ''title'', ''is_remote'']"
        "[(''site'', PStr ''indeed''), (''title'', PStr ''Python Developer''),
          (''is_remote'', PNaN)]" 1 _ "''company''"]
      mandatory_lines_emitted [of example_lib "[''title'']"
        "[(''title'', PStr ''Python Developer'')]" 1 _ "''company''"]
      mandatory_lines_emitted [of example_lib "[''site'', ''title'']"
        "[(''site'', PNone), (''title'', PStr ''Python Developer'')]" 1 _ "''company''"]
    by (simp add: t)
qed

text \<open>
  The claim as stated fails: for a row whose site cell is \<^verbatim>\<open>None\<close> the call
  \<^verbatim>\<open>job.get('site', 'N/A').title()\<close> of line 103 raises \<^verbatim>\<open>AttributeError\<close>, and
  none of the four mandatory lines of that row is emitted.
\<close>

theorem listing_without_site_raises:
  "listing_parts example_lib [''site'', ''title''] 1
     [(''site'', PNone), (''title'', PStr ''Python Developer'')]
   = Inl AttributeError"
  by (simp add: listing_parts_def source_line_def row_get_def)

lemma na_remote_report:
  "snd (scrape_jobs_tool example_lib na_remote_scraper (example_request (Some [''indeed''])))
     = Inl TypeError"
  by (simp add: scrape_jobs_tool_valid [OF example_sites_valid] format_report_def df_empty_def
      listing_parts_def source_line_def salary_lines_def remote_lines_def row_get_def
      na_remote_scraper_def na_remote_frame_def Let_def)

text \<open>
  Claim C5 says that an optional attribute contributes a line only when it is present,
  and that an absent one is omitted without raising. The code tests ten of the optional
  attributes with \<^verbatim>\<open>pandas.notna\<close>, but the remote flag with a plain \<^verbatim>\<open>if\<close>. A remote
  flag that is missing as NaN is truthy: the listing says \<^verbatim>\<open>Remote work available\<close>
  while the summary of the same report, which uses \<^verbatim>\<open>fillna(False)\<close>, counts no remote
  job. A remote flag that is missing as \<^verbatim>\<open>pandas.NA\<close> raises \<^verbatim>\<open>TypeError\<close>.
\<close>

theorem missing_remote_flag_listed:
  "snd (scrape_jobs_tool example_lib nan_remote_scraper (example_request (Some [''indeed''])))
     = Inr ''Found 1 jobs for 'python developer'\<newline>\<newline>1. Python Developer\<newline>Company: N/A\<newline>Location: N/A\<newline>Source: Indeed\<newline>Remote work available\<newline>\<newline>Search Summary\<newline>Total jobs found: 1\<newline>Sites searched: indeed\<newline>Remote jobs: 0''
   \<and> notna (PNaN :: rat pyval) = False
   \<and> snd (scrape_jobs_tool example_lib na_remote_scraper (example_request (Some [''indeed''])))
     = Inl TypeError"
  using nan_remote_report na_remote_report
  by (simp add: nan_remote_output_def)

end
